theory Spec2Isabelle
  imports Complex_Main "HOL-Library.Product_Lexorder"
begin

section \<open>The ETL pipeline of app/etl/pipeline.py and the quality check of app/workflows/etl_workflow.py\<close>

text \<open>
  The pipeline reads five CSV files into pandas frames, validates them, derives
  enriched and aggregated frames, and writes seven tables. The embedding keeps the
  frames as lists of typed rows (one record per row) together with the list of column
  names the CSV file carried, so that every column access of the source that can raise
  does so in the model.

  Conventions of the embedding.
  \<^item> A cell of a nullable column is an \<open>option\<close>; \<open>None\<close> is pandas' missing value
    (NaN, NaT, None). Primary-key columns (declared \<open>primary_key=True\<close> in
    app/models/ecommerce.py) are plain \<open>int\<close>; nothing makes them unique.
  \<^item> Float columns hold exact rationals: rounding error of binary floating point is
    not modelled. The results of a float division live in \<open>fval\<close>, which adds the
    two infinities and NaN that pandas produces instead of raising.
  \<^item> A timestamp is a number of seconds since 1970-01-01 00:00; a calendar day is
    the timestamp divided by 86400, rounded down.
  \<^item> Columns that neither a transformation nor the quality check reads (sku,
    payment_method, names, addresses, parent_id, the calendar breakdown of dim_time
    other than day_of_week) are left out of the rows; their presence among the column
    names is still checked where the source checks it.
\<close>

subsection \<open>Errors\<close>

datatype error =
    FileNotFoundError string
  | ValueError string
  | KeyError string
  | TypeError string
  | DatabaseError string

subsection \<open>Float results\<close>

datatype fval = Fin rat | PInf | NInf | NaN

text \<open>A nullable float cell read as a float: the missing value is NaN.\<close>

definition of_cell :: "rat option \<Rightarrow> fval" where
  "of_cell c = (case c of None \<Rightarrow> NaN | Some x \<Rightarrow> Fin x)"

text \<open>Float division as numpy performs it on a column: no exception, a zero divisor
  gives an infinity of the sign of the dividend, or NaN for 0/0.\<close>

fun fdiv :: "fval \<Rightarrow> fval \<Rightarrow> fval" where
  "fdiv (Fin a) (Fin b) =
     (if b \<noteq> 0 then Fin (a / b) else if 0 < a then PInf else if a < 0 then NInf else NaN)"
| "fdiv NaN _ = NaN"
| "fdiv _ NaN = NaN"
| "fdiv (Fin a) _ = Fin 0"
| "fdiv PInf (Fin b) = (if 0 \<le> b then PInf else NInf)"
| "fdiv NInf (Fin b) = (if 0 \<le> b then NInf else PInf)"
| "fdiv _ _ = NaN"

text \<open>numpy's \<open>rint\<close>: the nearest integer, a tie going to the even one.\<close>

definition rint :: "rat \<Rightarrow> int" where
  "rint x = (let f = \<lfloor>x\<rfloor>; d = x - of_int f in
     if d < 1 / 2 then f else if 1 / 2 < d then f + 1 else if even f then f else f + 1)"

definition round4 :: "rat \<Rightarrow> rat" where
  "round4 x = of_int (rint (x * 10000)) / 10000"

fun fround4 :: "fval \<Rightarrow> fval" where
  "fround4 (Fin x) = Fin (round4 x)"
| "fround4 v = v"

subsection \<open>Columns\<close>

text \<open>The non-missing values of a column, the sum pandas takes of a column (missing
  values skipped, the empty sum 0) and its \<open>min\<close>/\<open>max\<close> (missing when no value
  is present).\<close>

definition present :: "'a option list \<Rightarrow> 'a list" where
  "present xs = List.map_filter id xs"

definition col_sum :: "('a::comm_monoid_add) option list \<Rightarrow> 'a" where
  "col_sum xs = sum_list (present xs)"

definition col_min :: "('a::linorder) option list \<Rightarrow> 'a option" where
  "col_min xs = (case present xs of [] \<Rightarrow> None | v # vs \<Rightarrow> Some (fold min vs v))"

definition col_max :: "('a::linorder) option list \<Rightarrow> 'a option" where
  "col_max xs = (case present xs of [] \<Rightarrow> None | v # vs \<Rightarrow> Some (fold max vs v))"

text \<open>\<open>series.min() < bound\<close> and \<open>series.min() <= bound\<close>: a comparison with a
  missing minimum is False.\<close>

definition min_lt :: "('a::linorder) option list \<Rightarrow> 'a \<Rightarrow> bool" where
  "min_lt xs b = (case col_min xs of None \<Rightarrow> False | Some m \<Rightarrow> m < b)"

definition min_le :: "('a::linorder) option list \<Rightarrow> 'a \<Rightarrow> bool" where
  "min_le xs b = (case col_min xs of None \<Rightarrow> False | Some m \<Rightarrow> m \<le> b)"

text \<open>\<open>series.isin(values)\<close>: False on a missing value.\<close>

definition isin :: "'a option \<Rightarrow> 'a list \<Rightarrow> bool" where
  "isin c vs = (case c of None \<Rightarrow> False | Some v \<Rightarrow> v \<in> set vs)"

subsection \<open>Frames\<close>

record 'r csv =
  columns :: "string list"
  rows :: "'r list"

definition has_cols :: "string list \<Rightarrow> string list \<Rightarrow> bool" where
  "has_cols required cols = list_all (\<lambda>c. c \<in> set cols) required"

text \<open>\<open>left.merge(right, on=key, how='left')\<close>: the left rows in order, each once
  per matching right row (in the right frame's order), or once with the right columns
  missing when no right row matches. A merged row is the pair of its left row and its
  right row, if any.\<close>

definition merge_left ::
  "('a \<Rightarrow> 'b \<Rightarrow> bool) \<Rightarrow> 'a list \<Rightarrow> 'b list \<Rightarrow> ('a \<times> 'b option) list" where
  "merge_left matches ls rs =
     concat (map (\<lambda>l. case filter (matches l) rs of
                         [] \<Rightarrow> [(l, None)]
                       | m # ms \<Rightarrow> map (\<lambda>r. (l, Some r)) (m # ms)) ls)"

text \<open>\<open>groupby(keys)\<close> with the defaults \<open>sort=True, dropna=True\<close>: the groups are
  the distinct keys in ascending order; a row with a missing key belongs to no group.\<close>

definition group_keys :: "('a \<Rightarrow> ('k::linorder) option) \<Rightarrow> 'a list \<Rightarrow> 'k list" where
  "group_keys key xs = sort (remdups (List.map_filter key xs))"

definition group_rows :: "('a \<Rightarrow> 'k option) \<Rightarrow> 'k \<Rightarrow> 'a list \<Rightarrow> 'a list" where
  "group_rows key k xs = filter (\<lambda>x. key x = Some k) xs"

text \<open>\<open>count\<close> and \<open>nunique\<close> of a column: missing values are not counted.\<close>

definition col_count :: "'a option list \<Rightarrow> nat" where
  "col_count xs = length (present xs)"

definition nunique :: "'a option list \<Rightarrow> nat" where
  "nunique xs = length (remdups (present xs))"

subsection \<open>The rows of the five input files\<close>

record category_row =
  c_category_id :: int
  c_name :: "string option"
  c_description :: "string option"

record product_row =
  p_product_id :: int
  p_name :: "string option"
  p_description :: "string option"
  p_price :: "rat option"
  p_cost :: "rat option"
  p_category_id :: "int option"
  p_weight :: "rat option"
  p_is_active :: "bool option"

record customer_row =
  cu_customer_id :: int
  cu_email :: "string option"

text \<open>A date cell of orders.csv before \<open>pd.to_datetime\<close>: empty, text that does not
  parse, or text that parses to a timestamp.\<close>

datatype date_cell = NoDate | BadDate | Stamp int

record raw_order_row =
  ro_order_id :: int
  ro_customer_id :: "int option"
  ro_order_date :: date_cell
  ro_processing_date :: date_cell
  ro_shipping_date :: date_cell
  ro_delivery_date :: date_cell
  ro_status :: "string option"
  ro_total_amount :: "rat option"

record order_row =
  o_order_id :: int
  o_customer_id :: "int option"
  o_order_date :: "int option"
  o_status :: "string option"
  o_total_amount :: "rat option"

record item_row =
  i_order_id :: "int option"
  i_product_id :: "int option"
  i_quantity :: "int option"
  i_price :: "rat option"
  i_discount :: "rat option"
  i_total :: "rat option"

record csv_files =
  product_categories_csv :: "category_row csv option"
  products_csv :: "product_row csv option"
  customers_csv :: "customer_row csv option"
  orders_csv :: "raw_order_row csv option"
  order_items_csv :: "item_row csv option"

record dfs =
  categories :: "category_row csv"
  products :: "product_row csv"
  customers :: "customer_row csv"
  orders :: "order_row csv"
  order_items :: "item_row csv"

subsection \<open>Extraction: reading and validating the five files\<close>

definition read_and_validate_categories :: "category_row csv option \<Rightarrow> error + category_row csv" where
  "read_and_validate_categories f =
     (case f of
        None \<Rightarrow> Inl (FileNotFoundError ''product_categories.csv'')
      | Some df \<Rightarrow>
          if \<not> has_cols [''category_id'', ''name'', ''description'', ''parent_id''] (columns df)
          then Inl (ValueError ''Missing required columns in product_categories.csv'')
          else Inr (df\<lparr>rows := map (\<lambda>r. r\<lparr>c_description :=
                      Some (case c_description r of None \<Rightarrow> [] | Some d \<Rightarrow> d)\<rparr>) (rows df)\<rparr>))"

definition clean_product :: "product_row \<Rightarrow> product_row" where
  "clean_product r = r\<lparr>
     p_description := Some (case p_description r of None \<Rightarrow> [] | Some d \<Rightarrow> d),
     p_weight := Some (case p_weight r of None \<Rightarrow> 0 | Some w \<Rightarrow> w),
     p_is_active := Some (case p_is_active r of None \<Rightarrow> True | Some a \<Rightarrow> a)\<rparr>"

text \<open>The columns description, weight and is_active are not among the required ones,
  but the cleaning reads them: \<open>df['description']\<close> raises KeyError when the file has
  no such column.\<close>

definition read_and_validate_products :: "product_row csv option \<Rightarrow> error + product_row csv" where
  "read_and_validate_products f =
     (case f of
        None \<Rightarrow> Inl (FileNotFoundError ''products.csv'')
      | Some df \<Rightarrow>
          if \<not> has_cols [''product_id'', ''name'', ''price'', ''category_id'', ''sku''] (columns df)
          then Inl (ValueError ''Missing required columns in products.csv'')
          else if min_lt (map p_price (rows df)) 0
          then Inl (ValueError ''Found negative prices in products data'')
          else if ''description'' \<notin> set (columns df) then Inl (KeyError ''description'')
          else if ''weight'' \<notin> set (columns df) then Inl (KeyError ''weight'')
          else if ''is_active'' \<notin> set (columns df) then Inl (KeyError ''is_active'')
          else Inr (df\<lparr>rows := map clean_product (rows df)\<rparr>))"

text \<open>The email pattern \<^verbatim>\<open>^[a-zA-Z0-9._%+-]+@[a-zA-Z0-9.-]+\.[a-zA-Z]{2,}$\<close>, matched
  by \<open>re.match\<close>. The local part cannot contain an at sign, so it is the longest prefix
  of local characters and the at sign follows it; the top-level domain cannot contain a
  dot, so it is what follows the last dot. \<open>$\<close> also matches before one final newline.\<close>

definition is_alpha :: "char \<Rightarrow> bool" where
  "is_alpha c = (c \<in> set ''abcdefghijklmnopqrstuvwxyzABCDEFGHIJKLMNOPQRSTUVWXYZ'')"

definition is_alnum :: "char \<Rightarrow> bool" where
  "is_alnum c = (is_alpha c \<or> c \<in> set ''0123456789'')"

definition local_char :: "char \<Rightarrow> bool" where
  "local_char c = (is_alnum c \<or> c \<in> set ''._%+-'')"

definition domain_char :: "char \<Rightarrow> bool" where
  "domain_char c = (is_alnum c \<or> c \<in> set ''.-'')"

definition domain_tld :: "string \<Rightarrow> bool" where
  "domain_tld d =
     (let t = rev (takeWhile (\<lambda>c. c \<noteq> CHR ''.'') (rev d));
          ad = rev (dropWhile (\<lambda>c. c \<noteq> CHR ''.'') (rev d))
      in ad \<noteq> [] \<and> butlast ad \<noteq> [] \<and> list_all domain_char (butlast ad)
         \<and> 2 \<le> length t \<and> list_all is_alpha t)"

definition email_core :: "string \<Rightarrow> bool" where
  "email_core s =
     (takeWhile local_char s \<noteq> [] \<and>
      (case dropWhile local_char s of [] \<Rightarrow> False | c # d \<Rightarrow> c = CHR ''@'' \<and> domain_tld d))"

definition email_match :: "string \<Rightarrow> bool" where
  "email_match s = (email_core s \<or> (s \<noteq> [] \<and> last s = CHR 0x0A \<and> email_core (butlast s)))"

text \<open>\<open>series.str.match(p)\<close> and \<open>series.str.contains(p)\<close> on a column of strings
  (object dtype, pandas 1.x and 2.x): the result is missing where the string is. \<open>~\<close>
  on such a result raises TypeError as soon as one entry is missing, and negates a
  column of booleans otherwise.\<close>

definition str_test :: "(string \<Rightarrow> bool) \<Rightarrow> string option list \<Rightarrow> bool option list" where
  "str_test p col = map (map_option p) col"

definition invert :: "bool option list \<Rightarrow> error + bool list" where
  "invert m =
     (if None \<in> set m then Inl (TypeError ''bad operand type for unary ~'')
      else Inr (map Not (present m)))"

definition read_and_validate_customers :: "customer_row csv option \<Rightarrow> error + customer_row csv" where
  "read_and_validate_customers f =
     (case f of
        None \<Rightarrow> Inl (FileNotFoundError ''customers.csv'')
      | Some df \<Rightarrow>
          if \<not> has_cols [''customer_id'', ''email'', ''first_name'', ''last_name''] (columns df)
          then Inl (ValueError ''Missing required columns in customers.csv'')
          else (case invert (str_test email_match (map cu_email (rows df))) of
                  Inl e \<Rightarrow> Inl e
                | Inr invalid_emails \<Rightarrow>
                    Inr (df\<lparr>rows := map (\<lambda>(r, bad). if bad then r\<lparr>cu_email := None\<rparr> else r)
                                          (zip (rows df) invalid_emails)\<rparr>)))"

text \<open>\<open>pd.to_datetime\<close> on a column: a missing cell stays missing (NaT), text that
  does not parse raises.\<close>

definition to_datetime :: "date_cell list \<Rightarrow> error + int option list" where
  "to_datetime col =
     (if BadDate \<in> set col then Inl (ValueError ''Unknown datetime string format'')
      else Inr (map (\<lambda>c. case c of Stamp t \<Rightarrow> Some t | _ \<Rightarrow> None) col))"

definition parse_optional :: "string \<Rightarrow> string list \<Rightarrow> date_cell list \<Rightarrow> error option" where
  "parse_optional col cols cells =
     (if col \<in> set cols then (case to_datetime cells of Inl e \<Rightarrow> Some e | Inr _ \<Rightarrow> None)
      else None)"

definition read_and_validate_orders :: "raw_order_row csv option \<Rightarrow> error + order_row csv" where
  "read_and_validate_orders f =
     (case f of
        None \<Rightarrow> Inl (FileNotFoundError ''orders.csv'')
      | Some df \<Rightarrow>
          if \<not> has_cols [''order_id'', ''customer_id'', ''order_date'', ''status'',
                           ''payment_method'', ''total_amount''] (columns df)
          then Inl (ValueError ''Missing required columns in orders.csv'')
          else (case to_datetime (map ro_order_date (rows df)) of
                  Inl e \<Rightarrow> Inl e
                | Inr dates \<Rightarrow>
                   (case parse_optional ''processing_date'' (columns df)
                           (map ro_processing_date (rows df)) of
                      Some e \<Rightarrow> Inl e
                    | None \<Rightarrow>
                   (case parse_optional ''shipping_date'' (columns df)
                           (map ro_shipping_date (rows df)) of
                      Some e \<Rightarrow> Inl e
                    | None \<Rightarrow>
                   (case parse_optional ''delivery_date'' (columns df)
                           (map ro_delivery_date (rows df)) of
                      Some e \<Rightarrow> Inl e
                    | None \<Rightarrow>
                       if min_lt (map ro_total_amount (rows df)) 0
                       then Inl (ValueError ''Found negative order amounts'')
                       else Inr \<lparr>columns = columns df,
                                 rows = map (\<lambda>(r, d). \<lparr>o_order_id = ro_order_id r,
                                                        o_customer_id = ro_customer_id r,
                                                        o_order_date = d,
                                                        o_status = ro_status r,
                                                        o_total_amount = ro_total_amount r\<rparr>)
                                            (zip (rows df) dates)\<rparr>)))))"

definition read_and_validate_order_items :: "item_row csv option \<Rightarrow> error + item_row csv" where
  "read_and_validate_order_items f =
     (case f of
        None \<Rightarrow> Inl (FileNotFoundError ''order_items.csv'')
      | Some df \<Rightarrow>
          if \<not> has_cols [''order_item_id'', ''order_id'', ''product_id'',
                           ''quantity'', ''price'', ''total''] (columns df)
          then Inl (ValueError ''Missing required columns in order_items.csv'')
          else if min_le (map i_quantity (rows df)) 0
          then Inl (ValueError ''Found zero or negative quantities'')
          else if min_lt (map i_price (rows df)) 0
          then Inl (ValueError ''Found negative prices'')
          else Inr df)"

text \<open>\<open>extract\<close> (here \<open>extract_phase\<close>, the word being reserved): the five readers in the source's order; the first error ends it.\<close>

definition extract_phase :: "csv_files \<Rightarrow> error + dfs" where
  "extract_phase files =
     (case read_and_validate_categories (product_categories_csv files) of
        Inl e \<Rightarrow> Inl e
      | Inr cs \<Rightarrow>
     (case read_and_validate_products (products_csv files) of
        Inl e \<Rightarrow> Inl e
      | Inr ps \<Rightarrow>
     (case read_and_validate_customers (customers_csv files) of
        Inl e \<Rightarrow> Inl e
      | Inr cus \<Rightarrow>
     (case read_and_validate_orders (orders_csv files) of
        Inl e \<Rightarrow> Inl e
      | Inr os \<Rightarrow>
     (case read_and_validate_order_items (order_items_csv files) of
        Inl e \<Rightarrow> Inl e
      | Inr its \<Rightarrow>
          Inr \<lparr>categories = cs, products = ps, customers = cus,
               orders = os, order_items = its\<rparr>)))))"

subsection \<open>Transformation\<close>

text \<open>Arithmetic on two nullable cells: missing as soon as one operand is.\<close>

definition cell2 :: "('a \<Rightarrow> 'b \<Rightarrow> 'c) \<Rightarrow> 'a option \<Rightarrow> 'b option \<Rightarrow> 'c option" where
  "cell2 f a b = (case (a, b) of (Some x, Some y) \<Rightarrow> Some (f x y) | _ \<Rightarrow> None)"

record product_enriched = product_row +
  p_name_category :: "string option"
  p_profit_margin :: fval

definition profit_margin :: "rat option \<Rightarrow> rat option \<Rightarrow> fval" where
  "profit_margin price cost = fround4 (fdiv (of_cell (cell2 (-) price cost)) (of_cell price))"

text \<open>Step 1. The right frame of the merge is the selection
  \<open>categories_df[['category_id', 'name']]\<close>. The cost column is not among the required ones; reading it raises
  KeyError when products.csv has none.\<close>

definition transform_product_data ::
  "product_row csv \<Rightarrow> category_row csv \<Rightarrow> error + product_enriched list" where
  "transform_product_data products_df categories_df =
     (let merged = merge_left (\<lambda>p c. p_category_id p = Some (fst c))
                     (rows products_df)
                     (map (\<lambda>c. (c_category_id c, c_name c)) (rows categories_df))
      in if ''cost'' \<notin> set (columns products_df) then Inl (KeyError ''cost'')
         else Inr (map (\<lambda>(p, c).
                \<lparr>p_product_id = p_product_id p, p_name = p_name p,
                 p_description = p_description p, p_price = p_price p, p_cost = p_cost p,
                 p_category_id = p_category_id p, p_weight = p_weight p,
                 p_is_active = p_is_active p,
                 p_name_category = Option.bind c snd,
                 p_profit_margin = profit_margin (p_price p) (p_cost p)\<rparr>) merged))"

record order_metrics =
  om_order_id :: int
  om_total :: rat
  om_profit :: rat
  om_quantity :: int

record order_enriched = order_row +
  o_total :: "rat option"
  o_profit :: "rat option"
  o_quantity :: "int option"

text \<open>Step 2. The right frame of the first merge is the selection
  \<open>products_df[['product_id', 'cost']]\<close>. The profit of a merged item row is \<open>total - cost * quantity\<close>, missing
  when the item has no product or a cell is missing. \<open>order_metrics_of\<close> is the
  frame \<open>order_metrics\<close> of the source, \<open>calculate_order_revenue\<close> the merge of the
  orders with it.\<close>

definition item_profit :: "item_row \<times> (int \<times> rat option) option \<Rightarrow> rat option" where
  "item_profit ip =
     cell2 (-) (i_total (fst ip))
       (cell2 (\<lambda>c q. c * of_int q) (Option.bind (snd ip) snd) (i_quantity (fst ip)))"

definition order_metrics_of :: "item_row list \<Rightarrow> 'p product_row_scheme list \<Rightarrow> order_metrics list" where
  "order_metrics_of items_df products_df =
     (let items_with_products =
            merge_left (\<lambda>i p. i_product_id i = Some (fst p)) items_df
              (map (\<lambda>p. (p_product_id p, p_cost p)) products_df)
      in map (\<lambda>k. let g = group_rows (\<lambda>ip. i_order_id (fst ip)) k items_with_products in
                   \<lparr>om_order_id = k,
                    om_total = col_sum (map (\<lambda>ip. i_total (fst ip)) g),
                    om_profit = col_sum (map item_profit g),
                    om_quantity = col_sum (map (\<lambda>ip. i_quantity (fst ip)) g)\<rparr>)
             (group_keys (\<lambda>ip. i_order_id (fst ip)) items_with_products))"

definition calculate_order_revenue ::
  "order_row list \<Rightarrow> item_row list \<Rightarrow> 'p product_row_scheme list \<Rightarrow> order_enriched list" where
  "calculate_order_revenue orders_df items_df products_df =
     map (\<lambda>(od, m).
            \<lparr>o_order_id = o_order_id od, o_customer_id = o_customer_id od,
             o_order_date = o_order_date od, o_status = o_status od,
             o_total_amount = o_total_amount od,
             o_total = map_option om_total m,
             o_profit = map_option om_profit m,
             o_quantity = map_option om_quantity m\<rparr>)
         (merge_left (\<lambda>od m. o_order_id od = om_order_id m) orders_df
            (order_metrics_of items_df products_df))"

record customer_metrics =
  cm_customer_id :: int
  cm_total_orders :: nat
  cm_lifetime_value :: rat
  cm_first_order_date :: "int option"
  cm_last_order_date :: "int option"
  cm_average_order_value :: fval
  cm_days_between_orders :: fval

record customer_enriched = customer_row +
  cu_total_orders :: "nat option"
  cu_lifetime_value :: "rat option"
  cu_first_order_date :: "int option"
  cu_last_order_date :: "int option"
  cu_average_order_value :: fval
  cu_days_between_orders :: fval

text \<open>\<open>(last - first).dt.days\<close>: the whole days of the difference, missing when a
  date is.\<close>

definition days_between :: "int option \<Rightarrow> int option \<Rightarrow> fval" where
  "days_between first_date last_date =
     of_cell (cell2 (\<lambda>l f. of_int ((l - f) div 86400)) last_date first_date)"

text \<open>Step 3. \<open>count\<close> of order_id counts every order of the group, the column
  having no missing value.\<close>

definition qualifying :: "'o order_row_scheme \<Rightarrow> bool" where
  "qualifying od = isin (o_status od) [''Delivered'', ''In Transit'', ''Shipped'']"

definition customer_metrics_of :: "order_enriched list \<Rightarrow> customer_metrics list" where
  "customer_metrics_of orders_df =
     (let sel = filter qualifying orders_df in
      map (\<lambda>k. let g = group_rows o_customer_id k sel;
                    n = length g;
                    lv = col_sum (map o_total g);
                    first_date = col_min (map o_order_date g);
                    last_date = col_max (map o_order_date g)
                in \<lparr>cm_customer_id = k, cm_total_orders = n, cm_lifetime_value = lv,
                    cm_first_order_date = first_date, cm_last_order_date = last_date,
                    cm_average_order_value = fdiv (Fin lv) (Fin (of_nat n)),
                    cm_days_between_orders =
                      fdiv (days_between first_date last_date) (Fin (of_nat n))\<rparr>)
          (group_keys o_customer_id sel))"

definition enrich_customer_data ::
  "customer_row list \<Rightarrow> order_enriched list \<Rightarrow> customer_enriched list" where
  "enrich_customer_data customers_df orders_df =
     map (\<lambda>(c, m).
            \<lparr>cu_customer_id = cu_customer_id c, cu_email = cu_email c,
             cu_total_orders = map_option cm_total_orders m,
             cu_lifetime_value = map_option cm_lifetime_value m,
             cu_first_order_date = Option.bind m cm_first_order_date,
             cu_last_order_date = Option.bind m cm_last_order_date,
             cu_average_order_value =
               (case m of None \<Rightarrow> NaN | Some x \<Rightarrow> cm_average_order_value x),
             cu_days_between_orders =
               (case m of None \<Rightarrow> NaN | Some x \<Rightarrow> cm_days_between_orders x)\<rparr>)
         (merge_left (\<lambda>c m. cu_customer_id c = cm_customer_id m)
            customers_df (customer_metrics_of orders_df))"

record daily_sales_row =
  ds_order_date :: int
  ds_product_id :: int
  ds_category_id :: int
  ds_units_sold :: int
  ds_revenue :: rat
  ds_order_count :: nat
  ds_avg_unit_price :: fval

text \<open>Step 4. A joined row is an item with the selected columns of its order (order_id,
  order_date, status), if any, and of its product (product_id, category_id), if any.
  The grouping key is the calendar day of the order date, the product and the
  category; it is missing as soon as one of the three is.\<close>

type_synonym joined =
  "(item_row \<times> (int \<times> int option \<times> string option) option) \<times> (int \<times> int option) option"

definition j_item :: "joined \<Rightarrow> item_row" where
  "j_item j = fst (fst j)"

definition j_order_date :: "joined \<Rightarrow> int option" where
  "j_order_date j = Option.bind (snd (fst j)) (\<lambda>od. fst (snd od))"

definition j_status :: "joined \<Rightarrow> string option" where
  "j_status j = Option.bind (snd (fst j)) (\<lambda>od. snd (snd od))"

definition j_category_id :: "joined \<Rightarrow> int option" where
  "j_category_id j = Option.bind (snd j) snd"

definition daily_key :: "joined \<Rightarrow> (int \<times> int \<times> int) option" where
  "daily_key j =
     (case (j_order_date j, i_product_id (j_item j), j_category_id j) of
        (Some t, Some p, Some c) \<Rightarrow> Some (t div 86400, p, c)
      | _ \<Rightarrow> None)"

definition join_sales ::
  "'o order_row_scheme list \<Rightarrow> item_row list \<Rightarrow> 'p product_row_scheme list \<Rightarrow> joined list" where
  "join_sales orders_df items_df products_df =
     merge_left (\<lambda>io p. i_product_id (fst io) = Some (fst p))
       (merge_left (\<lambda>i od. i_order_id i = Some (fst od)) items_df
          (map (\<lambda>od. (o_order_id od, o_order_date od, o_status od)) orders_df))
       (map (\<lambda>p. (p_product_id p, p_category_id p)) products_df)"

definition not_excluded :: "joined \<Rightarrow> bool" where
  "not_excluded j = (\<not> isin (j_status j) [''Cancelled'', ''Returned''])"

definition aggregate_daily_sales ::
  "'o order_row_scheme list \<Rightarrow> item_row list \<Rightarrow> 'p product_row_scheme list
   \<Rightarrow> daily_sales_row list" where
  "aggregate_daily_sales orders_df items_df products_df =
     (let daily_sales = filter not_excluded (join_sales orders_df items_df products_df) in
      map (\<lambda>k. let g = group_rows daily_key k daily_sales;
                    units = col_sum (map (\<lambda>j. i_quantity (j_item j)) g);
                    revenue = col_sum (map (\<lambda>j. i_total (j_item j)) g)
                in \<lparr>ds_order_date = fst k * 86400, ds_product_id = fst (snd k),
                    ds_category_id = snd (snd k),
                    ds_units_sold = units, ds_revenue = revenue,
                    ds_order_count = nunique (map (\<lambda>j. i_order_id (j_item j)) g),
                    ds_avg_unit_price = fdiv (Fin revenue) (Fin (of_int units))\<rparr>)
          (group_keys daily_key daily_sales))"

record dim_time_row =
  dt_date :: int
  dt_day_of_week :: int
  dt_is_weekend :: bool
  dt_is_holiday :: bool

text \<open>\<open>pd.date_range(start, end, freq='D')\<close>: the timestamps \<open>start\<close>,
  \<open>start + 1 day\<close>, ... that are not after \<open>end\<close>; it raises when a bound is NaT.
  \<open>dayofweek\<close> counts from Monday = 0; 1970-01-01 was a Thursday.\<close>

definition date_range :: "int \<Rightarrow> int \<Rightarrow> int list" where
  "date_range start_date end_date =
     map (\<lambda>k. start_date + 86400 * int k) [0 ..< nat ((end_date - start_date) div 86400 + 1)]"

definition dayofweek :: "int \<Rightarrow> int" where
  "dayofweek t = (t div 86400 + 3) mod 7"

definition generate_time_dimension :: "'o order_row_scheme list \<Rightarrow> error + dim_time_row list" where
  "generate_time_dimension orders_df =
     (case (col_min (map o_order_date orders_df), col_max (map o_order_date orders_df)) of
        (Some start_date, Some end_date) \<Rightarrow>
          Inr (map (\<lambda>t. \<lparr>dt_date = t, dt_day_of_week = dayofweek t,
                          dt_is_weekend = (dayofweek t \<in> set [5, 6]),
                          dt_is_holiday = False\<rparr>)
                   (date_range start_date end_date))
      | _ \<Rightarrow> Inl (ValueError ''Neither start nor end can be NaT''))"

record tables =
  t_dim_time :: "dim_time_row list"
  t_categories :: "category_row list"
  t_products :: "product_enriched list"
  t_customers :: "customer_enriched list"
  t_orders :: "order_enriched list"
  t_order_items :: "item_row list"
  t_daily_sales :: "daily_sales_row list"

text \<open>\<open>transform\<close>: the five steps in the source's order. Each step reads the frames
  as the steps before it left them: step 2 and step 4 read the products of step 1,
  step 3 and step 4 and step 5 the orders of step 2.\<close>

definition transform_phase :: "dfs \<Rightarrow> error + tables" where
  "transform_phase d =
     (case transform_product_data (products d) (categories d) of
        Inl e \<Rightarrow> Inl e
      | Inr products1 \<Rightarrow>
          (let orders2 = calculate_order_revenue (rows (orders d)) (rows (order_items d)) products1;
               customers3 = enrich_customer_data (rows (customers d)) orders2;
               daily4 = aggregate_daily_sales orders2 (rows (order_items d)) products1
           in case generate_time_dimension orders2 of
                Inl e \<Rightarrow> Inl e
              | Inr dim5 \<Rightarrow>
                  Inr \<lparr>t_dim_time = dim5, t_categories = rows (categories d),
                       t_products = products1, t_customers = customers3,
                       t_orders = orders2, t_order_items = rows (order_items d),
                       t_daily_sales = daily4\<rparr>))"

subsection \<open>Loading\<close>

text \<open>The engine keeps the log of the writes that succeeded (table, mode, number of
  rows) and whether it has been disposed of. Whether the database accepts the write of
  a table is a parameter \<open>accepts\<close>; a write it refuses raises and writes nothing.\<close>

datatype if_exists = Fail | Replace | Append

record engine =
  written :: "(string \<times> if_exists \<times> nat) list"
  disposed :: bool

definition bulk_insert_df ::
  "(string \<Rightarrow> bool) \<Rightarrow> string \<Rightarrow> 'r list \<Rightarrow> if_exists \<Rightarrow> engine \<Rightarrow> error option \<times> engine" where
  "bulk_insert_df accepts table_name df mode eng =
     (if accepts table_name
      then (None, eng\<lparr>written := written eng @ [(table_name, mode, length df)]\<rparr>)
      else (Some (DatabaseError table_name), eng))"

text \<open>One statement after another: an exception of the first skips the second.\<close>

definition and_then ::
  "(engine \<Rightarrow> error option \<times> engine) \<Rightarrow> (engine \<Rightarrow> error option \<times> engine)
   \<Rightarrow> engine \<Rightarrow> error option \<times> engine" where
  "and_then f g eng =
     (case f eng of (Some e, eng') \<Rightarrow> (Some e, eng') | (None, eng') \<Rightarrow> g eng')"

definition load_dimension_tables :: "(string \<Rightarrow> bool) \<Rightarrow> tables \<Rightarrow> engine \<Rightarrow> error option \<times> engine" where
  "load_dimension_tables accepts t =
     and_then (bulk_insert_df accepts ''dim_time'' (t_dim_time t) Replace)
    (and_then (bulk_insert_df accepts ''product_categories'' (t_categories t) Replace)
    (and_then (bulk_insert_df accepts ''products'' (t_products t) Replace)
              (bulk_insert_df accepts ''customers'' (t_customers t) Replace)))"

definition load_fact_tables :: "(string \<Rightarrow> bool) \<Rightarrow> tables \<Rightarrow> engine \<Rightarrow> error option \<times> engine" where
  "load_fact_tables accepts t =
     and_then (bulk_insert_df accepts ''orders'' (t_orders t) Append)
    (and_then (bulk_insert_df accepts ''order_items'' (t_order_items t) Append)
              (bulk_insert_df accepts ''daily_sales_aggregation'' (t_daily_sales t) Append))"

definition load_phase :: "(string \<Rightarrow> bool) \<Rightarrow> tables \<Rightarrow> engine \<Rightarrow> error option \<times> engine" where
  "load_phase accepts t = and_then (load_dimension_tables accepts t) (load_fact_tables accepts t)"

subsection \<open>The run\<close>

text \<open>\<open>run\<close>: extract, transform, load; the \<open>finally\<close> clause disposes of the
  engine on every path. The result is the exception, if any, the frames of the run
  (those of \<open>self.dfs\<close> after a complete transformation) and the engine.\<close>

definition dispose :: "engine \<Rightarrow> engine" where
  "dispose eng = eng\<lparr>disposed := True\<rparr>"

definition run :: "(string \<Rightarrow> bool) \<Rightarrow> csv_files \<Rightarrow> engine \<Rightarrow> (error + tables) \<times> engine" where
  "run accepts files eng =
     (case extract_phase files of
        Inl e \<Rightarrow> (Inl e, dispose eng)
      | Inr d \<Rightarrow>
          (case transform_phase d of
             Inl e \<Rightarrow> (Inl e, dispose eng)
           | Inr t \<Rightarrow>
               (case load_phase accepts t eng of
                  (Some e, eng') \<Rightarrow> (Inl e, dispose eng')
                | (None, eng') \<Rightarrow> (Inr t, dispose eng'))))"

definition new_engine :: engine where
  "new_engine = \<lparr>written = [], disposed = False\<rparr>"

subsection \<open>The quality check of the workflow\<close>

text \<open>\<open>check_data_quality\<close> reads a frame through its column names. A frame is
  handed to it as the columns it can read, each present or not; of the other columns
  only the names matter, and only through these.\<close>

record quality_frame =
  q_len :: nat
  q_price :: "rat option list option"
  q_quantity :: "int option list option"
  q_discount :: "rat option list option"
  q_order_date :: "int option list option"
  q_email :: "string option list option"

record data_quality_metrics =
  total_records :: nat
  invalid_records :: nat
  missing_values :: "(string \<times> nat) list"
  validation_errors :: "string list"
  business_rule_violations :: "(string \<times> nat) list"

text \<open>\<open>(series < 0).sum()\<close>: a comparison with a missing value is False.\<close>

definition count_where :: "('a \<Rightarrow> bool) \<Rightarrow> 'a option list \<Rightarrow> nat" where
  "count_where p col = length (filter p (present col))"

definition null_count :: "string \<Rightarrow> 'a option list option \<Rightarrow> (string \<times> nat) list" where
  "null_count name col =
     (case col of None \<Rightarrow> [] | Some c \<Rightarrow> [(name, length (filter (\<lambda>x. x = None) c))])"

definition rule_count ::
  "string \<Rightarrow> ('a \<Rightarrow> bool) \<Rightarrow> 'a option list option \<Rightarrow> (string \<times> nat) list" where
  "rule_count name p col = (case col of None \<Rightarrow> [] | Some c \<Rightarrow> [(name, count_where p c)])"

definition check_data_quality ::
  "int \<Rightarrow> string \<Rightarrow> quality_frame \<Rightarrow> error + data_quality_metrics" where
  "check_data_quality now table_name df =
     (let common =
            rule_count ''negative_prices'' (\<lambda>x. x < 0) (q_price df) @
            rule_count ''invalid_quantities'' (\<lambda>x. x \<le> 0) (q_quantity df) @
            rule_count ''invalid_discounts'' (\<lambda>x. x < 0 \<or> 1 < x) (q_discount df);
          future_dates =
            (if table_name = ''orders''
             then (case q_order_date df of
                     None \<Rightarrow> Inl (KeyError ''order_date'')
                   | Some c \<Rightarrow> Inr [(''future_dates'', count_where (\<lambda>t. now < t) c)])
             else Inr []);
          invalid_emails =
            (if table_name = ''customers''
             then (case q_email df of
                     None \<Rightarrow> Inl (KeyError ''email'')
                   | Some c \<Rightarrow>
                       (case invert (str_test (\<lambda>s. CHR ''@'' \<in> set s) c) of
                          Inl e \<Rightarrow> Inl e
                        | Inr bad \<Rightarrow> Inr [(''invalid_emails'', length (filter id bad))]))
             else Inr [])
      in case future_dates of
           Inl e \<Rightarrow> Inl e
         | Inr fd \<Rightarrow>
             (case invalid_emails of
                Inl e \<Rightarrow> Inl e
              | Inr ie \<Rightarrow>
                  Inr \<lparr>total_records = q_len df, invalid_records = 0,
                       missing_values =
                         null_count ''price'' (q_price df) @
                         null_count ''quantity'' (q_quantity df) @
                         null_count ''discount'' (q_discount df) @
                         null_count ''order_date'' (q_order_date df) @
                         null_count ''email'' (q_email df),
                       validation_errors = [],
                       business_rule_violations = common @ fd @ ie\<rparr>))"

text \<open>The frames of a finished run as the quality check reads them. The discount column
  of order_items is there when the file had it.\<close>

definition no_cols :: "nat \<Rightarrow> quality_frame" where
  "no_cols n = \<lparr>q_len = n, q_price = None, q_quantity = None, q_discount = None,
                 q_order_date = None, q_email = None\<rparr>"

definition quality_frames :: "string list \<Rightarrow> tables \<Rightarrow> (string \<times> quality_frame) list" where
  "quality_frames item_cols t =
     [(''categories'', no_cols (length (t_categories t))),
      (''products'', (no_cols (length (t_products t)))\<lparr>q_price := Some (map p_price (t_products t))\<rparr>),
      (''customers'', (no_cols (length (t_customers t)))\<lparr>q_email := Some (map cu_email (t_customers t))\<rparr>),
      (''orders'', (no_cols (length (t_orders t)))
          \<lparr>q_quantity := Some (map o_quantity (t_orders t)),
           q_order_date := Some (map o_order_date (t_orders t))\<rparr>),
      (''order_items'', (no_cols (length (t_order_items t)))
          \<lparr>q_price := Some (map i_price (t_order_items t)),
           q_quantity := Some (map i_quantity (t_order_items t)),
           q_discount := (if ''discount'' \<in> set item_cols
                          then Some (map i_discount (t_order_items t)) else None)\<rparr>)]"

text \<open>\<open>process_data\<close>: the run, then the quality check of the five frames in turn;
  an exception of the run or of a check ends it. The engine is disposed of either way.\<close>

fun check_all :: "int \<Rightarrow> (string \<times> quality_frame) list \<Rightarrow> error + (string \<times> data_quality_metrics) list" where
  "check_all now [] = Inr []"
| "check_all now ((name, df) # rest) =
     (case check_data_quality now name df of
        Inl e \<Rightarrow> Inl e
      | Inr m \<Rightarrow> (case check_all now rest of Inl e \<Rightarrow> Inl e | Inr ms \<Rightarrow> Inr ((name, m) # ms)))"

definition process_data ::
  "int \<Rightarrow> (string \<Rightarrow> bool) \<Rightarrow> csv_files \<Rightarrow> engine
   \<Rightarrow> (error + (string \<times> data_quality_metrics) list) \<times> engine" where
  "process_data now accepts files eng =
     (case run accepts files eng of
        (Inl e, eng') \<Rightarrow> (Inl e, dispose eng')
      | (Inr t, eng') \<Rightarrow>
          (check_all now
             (quality_frames (case order_items_csv files of None \<Rightarrow> [] | Some f \<Rightarrow> columns f) t),
           dispose eng'))"

subsection \<open>A small batch\<close>

text \<open>Two categories, two products (one with price 0), two customers (one with a
  malformed email in \<open>sample_bad_email\<close>), three orders of customer 100 (one of them
  cancelled) and four items. 1704067200 is 2024-01-01 00:00, a Monday.\<close>

definition sample_categories :: "category_row csv" where
  "sample_categories =
     \<lparr>columns = [''category_id'', ''name'', ''description'', ''parent_id''],
      rows = [\<lparr>c_category_id = 1, c_name = Some ''Toys'', c_description = None\<rparr>,
              \<lparr>c_category_id = 2, c_name = Some ''Books'', c_description = Some ''Paper''\<rparr>]\<rparr>"

definition sample_products :: "product_row csv" where
  "sample_products =
     \<lparr>columns = [''product_id'', ''name'', ''description'', ''price'', ''cost'',
                 ''category_id'', ''sku'', ''weight'', ''is_active''],
      rows = [\<lparr>p_product_id = 10, p_name = Some ''Kite'', p_description = None,
               p_price = Some 20, p_cost = Some 12, p_category_id = Some 1,
               p_weight = None, p_is_active = None\<rparr>,
              \<lparr>p_product_id = 11, p_name = Some ''Leaflet'', p_description = None,
               p_price = Some 0, p_cost = Some 5, p_category_id = Some 2,
               p_weight = Some 1, p_is_active = Some True\<rparr>]\<rparr>"

definition sample_customers :: "customer_row csv" where
  "sample_customers =
     \<lparr>columns = [''customer_id'', ''email'', ''first_name'', ''last_name''],
      rows = [\<lparr>cu_customer_id = 100, cu_email = Some ''ann@shop.example''\<rparr>,
              \<lparr>cu_customer_id = 101, cu_email = Some ''bob@mail.org''\<rparr>]\<rparr>"

definition sample_orders :: "raw_order_row csv" where
  "sample_orders =
     \<lparr>columns = [''order_id'', ''customer_id'', ''order_date'', ''status'',
                 ''payment_method'', ''total_amount''],
      rows = [\<lparr>ro_order_id = 1000, ro_customer_id = Some 100,
               ro_order_date = Stamp 1704067200, ro_processing_date = NoDate,
               ro_shipping_date = NoDate, ro_delivery_date = NoDate,
               ro_status = Some ''Delivered'', ro_total_amount = Some 50\<rparr>,
              \<lparr>ro_order_id = 1001, ro_customer_id = Some 100,
               ro_order_date = Stamp 1704153600, ro_processing_date = NoDate,
               ro_shipping_date = NoDate, ro_delivery_date = NoDate,
               ro_status = Some ''Cancelled'', ro_total_amount = Some 10\<rparr>,
              \<lparr>ro_order_id = 1002, ro_customer_id = Some 100,
               ro_order_date = Stamp 1704240000, ro_processing_date = NoDate,
               ro_shipping_date = NoDate, ro_delivery_date = NoDate,
               ro_status = Some ''Shipped'', ro_total_amount = Some 0\<rparr>]\<rparr>"

definition sample_items :: "item_row csv" where
  "sample_items =
     \<lparr>columns = [''order_item_id'', ''order_id'', ''product_id'', ''quantity'',
                 ''price'', ''total''],
      rows = [\<lparr>i_order_id = Some 1000, i_product_id = Some 10, i_quantity = Some 1,
               i_price = Some 20, i_discount = None, i_total = Some 20\<rparr>,
              \<lparr>i_order_id = Some 1000, i_product_id = Some 10, i_quantity = Some 2,
               i_price = Some 15, i_discount = None, i_total = Some 30\<rparr>,
              \<lparr>i_order_id = Some 1001, i_product_id = Some 11, i_quantity = Some 1,
               i_price = Some 10, i_discount = None, i_total = Some 10\<rparr>,
              \<lparr>i_order_id = Some 1000, i_product_id = Some 77, i_quantity = Some 4,
               i_price = Some 1, i_discount = None, i_total = Some 4\<rparr>]\<rparr>"

definition sample_files :: csv_files where
  "sample_files =
     \<lparr>product_categories_csv = Some sample_categories, products_csv = Some sample_products,
      customers_csv = Some sample_customers, orders_csv = Some sample_orders,
      order_items_csv = Some sample_items\<rparr>"

text \<open>The frames of the batch after validation and after transformation.\<close>

definition sample_dfs :: dfs where
  "sample_dfs =
     \<lparr>categories = sample_categories\<lparr>rows :=
        [\<lparr>c_category_id = 1, c_name = Some ''Toys'', c_description = Some []\<rparr>,
         \<lparr>c_category_id = 2, c_name = Some ''Books'', c_description = Some ''Paper''\<rparr>]\<rparr>,
      products = sample_products\<lparr>rows :=
        [\<lparr>p_product_id = 10, p_name = Some ''Kite'', p_description = Some [],
          p_price = Some 20, p_cost = Some 12, p_category_id = Some 1,
          p_weight = Some 0, p_is_active = Some True\<rparr>,
         \<lparr>p_product_id = 11, p_name = Some ''Leaflet'', p_description = Some [],
          p_price = Some 0, p_cost = Some 5, p_category_id = Some 2,
          p_weight = Some 1, p_is_active = Some True\<rparr>]\<rparr>,
      customers = sample_customers,
      orders = \<lparr>columns = columns sample_orders, rows =
        [\<lparr>o_order_id = 1000, o_customer_id = Some 100, o_order_date = Some 1704067200,
          o_status = Some ''Delivered'', o_total_amount = Some 50\<rparr>,
         \<lparr>o_order_id = 1001, o_customer_id = Some 100, o_order_date = Some 1704153600,
          o_status = Some ''Cancelled'', o_total_amount = Some 10\<rparr>,
         \<lparr>o_order_id = 1002, o_customer_id = Some 100, o_order_date = Some 1704240000,
          o_status = Some ''Shipped'', o_total_amount = Some 0\<rparr>]\<rparr>,
      order_items = sample_items\<rparr>"

definition sample_tables :: tables where
  "sample_tables =
     \<lparr>t_dim_time =
        [\<lparr>dt_date = 1704067200, dt_day_of_week = 0, dt_is_weekend = False, dt_is_holiday = False\<rparr>,
         \<lparr>dt_date = 1704153600, dt_day_of_week = 1, dt_is_weekend = False, dt_is_holiday = False\<rparr>,
         \<lparr>dt_date = 1704240000, dt_day_of_week = 2, dt_is_weekend = False, dt_is_holiday = False\<rparr>],
      t_categories = rows (categories sample_dfs),
      t_products =
        [\<lparr>p_product_id = 10, p_name = Some ''Kite'', p_description = Some [],
          p_price = Some 20, p_cost = Some 12, p_category_id = Some 1,
          p_weight = Some 0, p_is_active = Some True,
          p_name_category = Some ''Toys'', p_profit_margin = Fin (2 / 5)\<rparr>,
         \<lparr>p_product_id = 11, p_name = Some ''Leaflet'', p_description = Some [],
          p_price = Some 0, p_cost = Some 5, p_category_id = Some 2,
          p_weight = Some 1, p_is_active = Some True,
          p_name_category = Some ''Books'', p_profit_margin = NInf\<rparr>],
      t_customers =
        [\<lparr>cu_customer_id = 100, cu_email = Some ''ann@shop.example'',
          cu_total_orders = Some 2, cu_lifetime_value = Some 54,
          cu_first_order_date = Some 1704067200, cu_last_order_date = Some 1704240000,
          cu_average_order_value = Fin 27, cu_days_between_orders = Fin 1\<rparr>,
         \<lparr>cu_customer_id = 101, cu_email = Some ''bob@mail.org'',
          cu_total_orders = None, cu_lifetime_value = None,
          cu_first_order_date = None, cu_last_order_date = None,
          cu_average_order_value = NaN, cu_days_between_orders = NaN\<rparr>],
      t_orders =
        [\<lparr>o_order_id = 1000, o_customer_id = Some 100, o_order_date = Some 1704067200,
          o_status = Some ''Delivered'', o_total_amount = Some 50,
          o_total = Some 54, o_profit = Some 14, o_quantity = Some 7\<rparr>,
         \<lparr>o_order_id = 1001, o_customer_id = Some 100, o_order_date = Some 1704153600,
          o_status = Some ''Cancelled'', o_total_amount = Some 10,
          o_total = Some 10, o_profit = Some 5, o_quantity = Some 1\<rparr>,
         \<lparr>o_order_id = 1002, o_customer_id = Some 100, o_order_date = Some 1704240000,
          o_status = Some ''Shipped'', o_total_amount = Some 0,
          o_total = None, o_profit = None, o_quantity = None\<rparr>],
      t_order_items = rows sample_items,
      t_daily_sales =
        [\<lparr>ds_order_date = 1704067200, ds_product_id = 10, ds_category_id = 1,
          ds_units_sold = 3, ds_revenue = 50, ds_order_count = 1,
          ds_avg_unit_price = Fin (50 / 3)\<rparr>]\<rparr>"

subsection \<open>The load plan\<close>

text \<open>The order and the modes of the seven writes as the specification lists them:
  the four dimension tables in replace mode, then the three fact tables in append
  mode.\<close>

definition load_plan :: "tables \<Rightarrow> (string \<times> if_exists \<times> nat) list" where
  "load_plan t =
     [(''dim_time'', Replace, length (t_dim_time t)),
      (''product_categories'', Replace, length (t_categories t)),
      (''products'', Replace, length (t_products t)),
      (''customers'', Replace, length (t_customers t)),
      (''orders'', Append, length (t_orders t)),
      (''order_items'', Append, length (t_order_items t)),
      (''daily_sales_aggregation'', Append, length (t_daily_sales t))]"

subsection \<open>Violations of an input batch\<close>

text \<open>The hard business-rule violations: a negative product price, a negative order
  total, a quantity that is not positive, a negative item price; and a required column
  missing from one of the five files. Each is about a file that is there.\<close>

definition negative_cell :: "('a::{zero,linorder}) option \<Rightarrow> bool" where
  "negative_cell c = (case c of None \<Rightarrow> False | Some v \<Rightarrow> v < 0)"

definition non_positive_cell :: "('a::{zero,linorder}) option \<Rightarrow> bool" where
  "non_positive_cell c = (case c of None \<Rightarrow> False | Some v \<Rightarrow> v \<le> 0)"

definition hard_violation :: "csv_files \<Rightarrow> bool" where
  "hard_violation files =
     ((case products_csv files of None \<Rightarrow> False
        | Some df \<Rightarrow> list_ex (\<lambda>r. negative_cell (p_price r)) (rows df)) \<or>
      (case orders_csv files of None \<Rightarrow> False
        | Some df \<Rightarrow> list_ex (\<lambda>r. negative_cell (ro_total_amount r)) (rows df)) \<or>
      (case order_items_csv files of None \<Rightarrow> False
        | Some df \<Rightarrow> list_ex (\<lambda>r. non_positive_cell (i_quantity r)) (rows df)) \<or>
      (case order_items_csv files of None \<Rightarrow> False
        | Some df \<Rightarrow> list_ex (\<lambda>r. negative_cell (i_price r)) (rows df)))"

definition lacks :: "'r csv option \<Rightarrow> string list \<Rightarrow> bool" where
  "lacks f required =
     (case f of None \<Rightarrow> False | Some df \<Rightarrow> list_ex (\<lambda>c. c \<notin> set (columns df)) required)"

definition missing_required_column :: "csv_files \<Rightarrow> bool" where
  "missing_required_column files =
     (lacks (product_categories_csv files) [''category_id'', ''name'', ''description'', ''parent_id''] \<or>
      lacks (products_csv files) [''product_id'', ''name'', ''price'', ''category_id'', ''sku''] \<or>
      lacks (customers_csv files) [''customer_id'', ''email'', ''first_name'', ''last_name''] \<or>
      lacks (orders_csv files) [''order_id'', ''customer_id'', ''order_date'', ''status'',
                                 ''payment_method'', ''total_amount''] \<or>
      lacks (order_items_csv files) [''order_item_id'', ''order_id'', ''product_id'',
                                      ''quantity'', ''price'', ''total''])"

text \<open>The batch with the price of the first product set to -5.\<close>

definition sample_negative_price :: csv_files where
  "sample_negative_price =
     sample_files\<lparr>products_csv := Some (sample_products\<lparr>rows :=
        [\<lparr>p_product_id = 10, p_name = Some ''Kite'', p_description = None,
          p_price = Some (-5), p_cost = Some 12, p_category_id = Some 1,
          p_weight = None, p_is_active = None\<rparr>]\<rparr>)\<rparr>"

subsection \<open>The groups of the daily sales\<close>

text \<open>The key of a row of the daily sales (calendar day, product, category), and the
  joined rows that make up the group of a key: those whose order is not cancelled or
  returned and whose key is the given one.\<close>

definition ds_key :: "daily_sales_row \<Rightarrow> int \<times> int \<times> int" where
  "ds_key r = (ds_order_date r div 86400, ds_product_id r, ds_category_id r)"

definition sales_group :: "joined list \<Rightarrow> int \<times> int \<times> int \<Rightarrow> joined list" where
  "sales_group js k =
     filter (\<lambda>j. \<not> isin (j_status j) [''Cancelled'', ''Returned''] \<and> daily_key j = Some k) js"

text \<open>An item has an order, or a product, when the merge finds a row for it.\<close>

definition has_order :: "'o order_row_scheme list \<Rightarrow> item_row \<Rightarrow> bool" where
  "has_order orders_df i = list_ex (\<lambda>od. i_order_id i = Some (o_order_id od)) orders_df"

definition has_product :: "'p product_row_scheme list \<Rightarrow> item_row \<Rightarrow> bool" where
  "has_product products_df i = list_ex (\<lambda>p. i_product_id i = Some (p_product_id p)) products_df"

text \<open>A row with a grouping key: the rows a \<open>groupby\<close> keeps.\<close>

definition keyed :: "('a \<Rightarrow> 'k option) \<Rightarrow> 'a \<Rightarrow> bool" where
  "keyed key x = (key x \<noteq> None)"

text \<open>The batch with a second row for category 1 in product_categories.csv.\<close>

definition sample_dup_category :: csv_files where
  "sample_dup_category =
     sample_files\<lparr>product_categories_csv := Some (sample_categories\<lparr>rows :=
        [\<lparr>c_category_id = 1, c_name = Some ''Toys'', c_description = None\<rparr>,
         \<lparr>c_category_id = 1, c_name = Some ''Games'', c_description = None\<rparr>,
         \<lparr>c_category_id = 2, c_name = Some ''Books'', c_description = Some ''Paper''\<rparr>]\<rparr>)\<rparr>"

subsection \<open>The items of an order\<close>

text \<open>The order items associated with an order, the cost of the product of an item
  (missing when the item has no product or the product no cost) and the profit of an
  item, \<open>total - cost * quantity\<close>.\<close>

definition items_of :: "item_row list \<Rightarrow> int \<Rightarrow> item_row list" where
  "items_of items_df oid = filter (\<lambda>i. i_order_id i = Some oid) items_df"

definition cost_of :: "'p product_row_scheme list \<Rightarrow> item_row \<Rightarrow> rat option" where
  "cost_of products_df i =
     Option.bind (List.find (\<lambda>p. i_product_id i = Some (p_product_id p)) products_df) p_cost"

definition profit_of :: "'p product_row_scheme list \<Rightarrow> item_row \<Rightarrow> rat option" where
  "profit_of products_df i =
     cell2 (-) (i_total i) (cell2 (\<lambda>c q. c * of_int q) (cost_of products_df i) (i_quantity i))"

text \<open>The batch with a second row for product 10 in products.csv.\<close>

definition sample_dup_product :: csv_files where
  "sample_dup_product =
     sample_files\<lparr>products_csv := Some (sample_products\<lparr>rows :=
        [\<lparr>p_product_id = 10, p_name = Some ''Kite'', p_description = None,
          p_price = Some 20, p_cost = Some 12, p_category_id = Some 1,
          p_weight = None, p_is_active = None\<rparr>,
         \<lparr>p_product_id = 10, p_name = Some ''Kite (red)'', p_description = None,
          p_price = Some 20, p_cost = Some 12, p_category_id = Some 1,
          p_weight = None, p_is_active = None\<rparr>,
         \<lparr>p_product_id = 11, p_name = Some ''Leaflet'', p_description = None,
          p_price = Some 0, p_cost = Some 5, p_category_id = Some 2,
          p_weight = Some 1, p_is_active = Some True\<rparr>]\<rparr>)\<rparr>"

subsection \<open>The qualifying orders of a customer\<close>

text \<open>The orders of a customer whose status is Delivered, In Transit or Shipped.\<close>

definition qualifying_orders :: "'o order_row_scheme list \<Rightarrow> int \<Rightarrow> 'o order_row_scheme list" where
  "qualifying_orders orders_df cid =
     filter (\<lambda>od. isin (o_status od) [''Delivered'', ''In Transit'', ''Shipped''] \<and>
                  o_customer_id od = Some cid) orders_df"

text \<open>The batch in which the only order of customer 100 has no order date, and
  customer 101 has one dated order.\<close>

definition sample_undated_order :: csv_files where
  "sample_undated_order =
     sample_files\<lparr>orders_csv := Some (sample_orders\<lparr>rows :=
        [\<lparr>ro_order_id = 1000, ro_customer_id = Some 100,
          ro_order_date = NoDate, ro_processing_date = NoDate,
          ro_shipping_date = NoDate, ro_delivery_date = NoDate,
          ro_status = Some ''Delivered'', ro_total_amount = Some 50\<rparr>,
         \<lparr>ro_order_id = 1001, ro_customer_id = Some 101,
          ro_order_date = Stamp 1704153600, ro_processing_date = NoDate,
          ro_shipping_date = NoDate, ro_delivery_date = NoDate,
          ro_status = Some ''Shipped'', ro_total_amount = Some 10\<rparr>]\<rparr>)\<rparr>"


text \<open>The batch in which the email of customer 101 is malformed.\<close>

definition sample_bad_email :: csv_files where
  "sample_bad_email =
     sample_files\<lparr>customers_csv := Some (sample_customers\<lparr>rows :=
        [\<lparr>cu_customer_id = 100, cu_email = Some ''ann@shop.example''\<rparr>,
         \<lparr>cu_customer_id = 101, cu_email = Some ''bob.at.mail.org''\<rparr>]\<rparr>)\<rparr>"

section \<open>Properties\<close>

subsection \<open>Columns\<close>

lemma set_present: "set (present xs) = {v. Some v \<in> set xs}"
  by (induction xs) (auto simp: present_def List.map_filter_simps split: option.splits)

lemma col_min_Some: "present xs \<noteq> [] \<Longrightarrow> col_min xs = Some (Min (set (present xs)))"
  using Min.set_eq_fold[of "hd (present xs)" "tl (present xs)"]
  by (cases "present xs") (simp_all add: col_min_def)


lemma min_lt_iff: "min_lt xs b \<longleftrightarrow> (\<exists>v. Some v \<in> set xs \<and> v < b)"
proof (cases "present xs = []")
  case True
  then have "set (present xs) = {}" by simp
  then have "\<And>v. Some v \<notin> set xs" unfolding set_present by blast
  with True show ?thesis by (simp add: min_lt_def col_min_def)
next
  case False
  then have "min_lt xs b \<longleftrightarrow> Min (set (present xs)) < b"
    by (simp add: min_lt_def col_min_Some)
  also have "\<dots> \<longleftrightarrow> (\<exists>v\<in>set (present xs). v < b)"
    using False by (simp add: Min_less_iff)
  finally show ?thesis by (auto simp: set_present)
qed

lemma min_le_iff: "min_le xs b \<longleftrightarrow> (\<exists>v. Some v \<in> set xs \<and> v \<le> b)"
proof (cases "present xs = []")
  case True
  then have "set (present xs) = {}" by simp
  then have "\<And>v. Some v \<notin> set xs" unfolding set_present by blast
  with True show ?thesis by (simp add: min_le_def col_min_def)
next
  case False
  then have "min_le xs b \<longleftrightarrow> Min (set (present xs)) \<le> b"
    by (simp add: min_le_def col_min_Some)
  also have "\<dots> \<longleftrightarrow> (\<exists>v\<in>set (present xs). v \<le> b)"
    using False by (simp add: Min_le_iff)
  finally show ?thesis by (auto simp: set_present)
qed

subsection \<open>The small batch, evaluated\<close>

lemma sample_extract: "extract_phase sample_files = Inr sample_dfs"
  by code_simp

lemma sample_transform: "transform_phase sample_dfs = Inr sample_tables"
  by code_simp

subsection \<open>Loading and the run\<close>

lemma load_phase_log:
  "load_phase accepts t eng = (r, eng') \<Longrightarrow>
     written eng' = written eng @ takeWhile (\<lambda>w. accepts (fst w)) (load_plan t) \<and>
     disposed eng' = disposed eng \<and>
     (r = None) = list_all (\<lambda>w. accepts (fst w)) (load_plan t)"
  by (auto simp: load_phase_def load_dimension_tables_def load_fact_tables_def and_then_def
        bulk_insert_df_def load_plan_def split: if_splits)

text \<open>
  C9. The load phase writes dim_time, product_categories, products and customers in
  replace mode, then orders, order_items and daily_sales_aggregation in append mode, in
  this order: the log of a run is the longest prefix of the load plan whose writes the
  database accepts, so a refused write prevents every later one, and the run returns
  its frames exactly when all seven are accepted. When extraction or transformation
  fails nothing is written. The engine is disposed of on every path of the run.
\<close>

theorem run_writes_in_order_and_releases:
  "disposed (snd (run accepts files eng)) \<and>
   (\<forall>d t. extract_phase files = Inr d \<and> transform_phase d = Inr t \<longrightarrow>
      written (snd (run accepts files eng))
        = written eng @ takeWhile (\<lambda>w. accepts (fst w)) (load_plan t) \<and>
      (fst (run accepts files eng) = Inr t) = list_all (\<lambda>w. accepts (fst w)) (load_plan t)) \<and>
   ((\<forall>d t. extract_phase files = Inr d \<longrightarrow> transform_phase d \<noteq> Inr t) \<longrightarrow>
      written (snd (run accepts files eng)) = written eng)"
proof (intro conjI allI impI)
  show "disposed (snd (run accepts files eng))"
    by (simp add: run_def dispose_def split: sum.splits prod.splits option.splits)
next
  fix d t assume h: "extract_phase files = Inr d \<and> transform_phase d = Inr t"
  obtain r eng' where l: "load_phase accepts t eng = (r, eng')" by (cases "load_phase accepts t eng")
  from load_phase_log[OF l] h l
  show "written (snd (run accepts files eng))
        = written eng @ takeWhile (\<lambda>w. accepts (fst w)) (load_plan t)"
    by (cases r) (simp_all add: run_def dispose_def)
  from load_phase_log[OF l] h l
  show "(fst (run accepts files eng) = Inr t) = list_all (\<lambda>w. accepts (fst w)) (load_plan t)"
    by (cases r) (simp_all add: run_def dispose_def)
next
  assume "\<forall>d t. extract_phase files = Inr d \<longrightarrow> transform_phase d \<noteq> Inr t"
  then show "written (snd (run accepts files eng)) = written eng"
    by (auto simp: run_def dispose_def split: sum.splits prod.splits option.splits)
qed

theorem run_writes_in_order_and_releases_witness:
  "disposed (snd (run (\<lambda>n. n \<noteq> ''customers'') sample_files new_engine)) \<and>
   written (snd (run (\<lambda>n. n \<noteq> ''customers'') sample_files new_engine))
     = [(''dim_time'', Replace, 3), (''product_categories'', Replace, 2), (''products'', Replace, 2)] \<and>
   fst (run (\<lambda>n. n \<noteq> ''customers'') sample_files new_engine) \<noteq> Inr sample_tables \<and>
   written (snd (run (\<lambda>n. True) sample_files new_engine))
     = [(''dim_time'', Replace, 3), (''product_categories'', Replace, 2), (''products'', Replace, 2),
        (''customers'', Replace, 2), (''orders'', Append, 3), (''order_items'', Append, 4),
        (''daily_sales_aggregation'', Append, 1)] \<and>
   fst (run (\<lambda>n. True) sample_files new_engine) = Inr sample_tables"
  using run_writes_in_order_and_releases[of "\<lambda>n. n \<noteq> ''customers''" sample_files new_engine]
    run_writes_in_order_and_releases[of "\<lambda>n. True" sample_files new_engine]
    sample_extract sample_transform
  by (simp add: load_plan_def sample_tables_def sample_dfs_def sample_items_def new_engine_def)

subsection \<open>Extraction rejects a bad batch\<close>

lemma lacks_iff: "lacks (Some df) req = (\<not> has_cols req (columns df))"
  by (simp add: lacks_def has_cols_def list_ex_iff list_all_iff)

lemma lacks_None: "\<not> lacks None req"
  by (simp add: lacks_def)

lemma negative_min_lt:
  assumes "list_ex (\<lambda>r. negative_cell (f r)) xs"
  shows "min_lt (map f xs) 0"
proof -
  from assms obtain r where r: "r \<in> set xs" "negative_cell (f r)"
    by (auto simp: list_ex_iff)
  then obtain v where v: "f r = Some v" "v < 0"
    by (auto simp: negative_cell_def split: option.splits)
  from r(1) v(1) have "Some v \<in> set (map f xs)" by force
  with v(2) show ?thesis unfolding min_lt_iff by blast
qed

lemma non_positive_min_le:
  assumes "list_ex (\<lambda>r. non_positive_cell (f r)) xs"
  shows "min_le (map f xs) 0"
proof -
  from assms obtain r where r: "r \<in> set xs" "non_positive_cell (f r)"
    by (auto simp: list_ex_iff)
  then obtain v where v: "f r = Some v" "v \<le> 0"
    by (auto simp: non_positive_cell_def split: option.splits)
  from r(1) v(1) have "Some v \<in> set (map f xs)" by force
  with v(2) show ?thesis unfolding min_le_iff by blast
qed

lemma categories_rejects:
  "lacks f [''category_id'', ''name'', ''description'', ''parent_id''] \<Longrightarrow>
   \<exists>e. read_and_validate_categories f = Inl e"
  by (cases f) (simp_all add: read_and_validate_categories_def lacks_iff lacks_None)

lemma products_rejects:
  "lacks f [''product_id'', ''name'', ''price'', ''category_id'', ''sku''] \<or>
   (case f of None \<Rightarrow> False | Some df \<Rightarrow> list_ex (\<lambda>r. negative_cell (p_price r)) (rows df)) \<Longrightarrow>
   \<exists>e. read_and_validate_products f = Inl e"
  by (cases f) (auto simp: read_and_validate_products_def lacks_iff lacks_None
      dest: negative_min_lt)

lemma customers_rejects:
  "lacks f [''customer_id'', ''email'', ''first_name'', ''last_name''] \<Longrightarrow>
   \<exists>e. read_and_validate_customers f = Inl e"
  by (cases f) (simp_all add: read_and_validate_customers_def lacks_iff lacks_None)

lemma orders_rejects:
  "lacks f [''order_id'', ''customer_id'', ''order_date'', ''status'',
            ''payment_method'', ''total_amount''] \<or>
   (case f of None \<Rightarrow> False
    | Some df \<Rightarrow> list_ex (\<lambda>r. negative_cell (ro_total_amount r)) (rows df)) \<Longrightarrow>
   \<exists>e. read_and_validate_orders f = Inl e"
  by (cases f) (auto simp: read_and_validate_orders_def lacks_iff lacks_None
      dest: negative_min_lt split: sum.splits option.splits)

lemma order_items_rejects:
  "lacks f [''order_item_id'', ''order_id'', ''product_id'', ''quantity'', ''price'', ''total''] \<or>
   (case f of None \<Rightarrow> False
    | Some df \<Rightarrow> list_ex (\<lambda>r. non_positive_cell (i_quantity r)) (rows df)) \<or>
   (case f of None \<Rightarrow> False
    | Some df \<Rightarrow> list_ex (\<lambda>r. negative_cell (i_price r)) (rows df)) \<Longrightarrow>
   \<exists>e. read_and_validate_order_items f = Inl e"
  by (cases f) (auto simp: read_and_validate_order_items_def lacks_iff lacks_None
      dest: negative_min_lt non_positive_min_le)

lemma extract_rejects:
  "(\<exists>e. read_and_validate_categories (product_categories_csv files) = Inl e) \<or>
   (\<exists>e. read_and_validate_products (products_csv files) = Inl e) \<or>
   (\<exists>e. read_and_validate_customers (customers_csv files) = Inl e) \<or>
   (\<exists>e. read_and_validate_orders (orders_csv files) = Inl e) \<or>
   (\<exists>e. read_and_validate_order_items (order_items_csv files) = Inl e) \<Longrightarrow>
   \<exists>e. extract_phase files = Inl e"
  by (auto simp: extract_phase_def split: sum.splits)

text \<open>
  C5. A batch with a hard business-rule violation (a negative product price, a negative
  order total, a quantity that is not positive, a negative item price) or with a
  required column missing from one of its files makes the extraction raise; the run
  ends with that error, the load phase is not reached and nothing is written to any
  table.
\<close>

theorem violation_aborts_before_load:
  assumes "hard_violation files \<or> missing_required_column files"
  shows "\<exists>e. extract_phase files = Inl e \<and>
             run accepts files eng = (Inl e, dispose eng) \<and>
             written (snd (run accepts files eng)) = written eng"
proof -
  have "\<exists>e. extract_phase files = Inl e"
    using assms categories_rejects[of "product_categories_csv files"]
      products_rejects[of "products_csv files"] customers_rejects[of "customers_csv files"]
      orders_rejects[of "orders_csv files"] order_items_rejects[of "order_items_csv files"]
    unfolding hard_violation_def missing_required_column_def
    by (intro extract_rejects) blast
  then obtain e where "extract_phase files = Inl e" ..
  then show ?thesis by (simp add: run_def dispose_def)
qed

theorem violation_aborts_before_load_witness:
  "hard_violation sample_negative_price \<and>
   run (\<lambda>n. True) sample_negative_price new_engine
     = (Inl (ValueError ''Found negative prices in products data''),
        \<lparr>written = [], disposed = True\<rparr>)"
proof -
  have h: "hard_violation sample_negative_price" by code_simp
  have e: "extract_phase sample_negative_price
             = Inl (ValueError ''Found negative prices in products data'')" by code_simp
  from violation_aborts_before_load[of sample_negative_price "\<lambda>n. True" new_engine] h e
  show ?thesis by (simp add: dispose_def new_engine_def)
qed

subsection \<open>Merges and groups\<close>

lemma merge_left_Nil [simp]: "merge_left m [] rs = []"
  by (simp add: merge_left_def)

lemma merge_left_Cons:
  "merge_left m (l # ls) rs =
     (case filter (m l) rs of [] \<Rightarrow> [(l, None)] | x # xs \<Rightarrow> map (\<lambda>r. (l, Some r)) (x # xs))
     @ merge_left m ls rs"
  by (simp add: merge_left_def)

lemma merge_left_append:
  "merge_left m (as @ bs) rs = merge_left m as rs @ merge_left m bs rs"
  by (simp add: merge_left_def)

lemma merge_left_no_match:
  "filter (m l) rs = [] \<Longrightarrow> merge_left m (l # ls) rs = (l, None) # merge_left m ls rs"
  by (simp add: merge_left_Cons)

lemma merge_left_matches:
  "filter (m l) rs \<noteq> [] \<Longrightarrow>
   merge_left m (l # ls) rs = map (\<lambda>r. (l, Some r)) (filter (m l) rs) @ merge_left m ls rs"
  by (cases "filter (m l) rs") (simp_all add: merge_left_Cons)

lemma set_map_filter_id: "set (List.map_filter f xs) = {k. \<exists>x\<in>set xs. f x = Some k}"
  by (induction xs) (auto simp: List.map_filter_simps split: option.splits)

lemma set_group_keys: "set (group_keys key xs) = {k. \<exists>x\<in>set xs. key x = Some k}"
  by (simp add: group_keys_def set_map_filter_id)

lemma distinct_group_keys: "distinct (group_keys key xs)"
  by (simp add: group_keys_def)

lemma sorted_group_keys: "sorted (group_keys key xs)"
  by (simp add: group_keys_def)






subsection \<open>Daily sales\<close>




subsection \<open>Items without an order or a product\<close>

lemma set_merge_left:
  "set (merge_left m ls rs) =
     {(l, Some r) | l r. l \<in> set ls \<and> r \<in> set rs \<and> m l r} \<union>
     {(l, None) | l. l \<in> set ls \<and> filter (m l) rs = []}"
proof (induction ls)
  case Nil
  then show ?case by simp
next
  case (Cons l ls)
  show ?case
  proof (cases "filter (m l) rs = []")
    case True
    then have "\<And>r. r \<in> set rs \<Longrightarrow> \<not> m l r" by (simp add: filter_empty_conv)
    with True Cons show ?thesis by (auto simp: merge_left_no_match)
  next
    case False
    have "set (map (\<lambda>r. (l, Some r)) (filter (m l) rs)) = {(l, Some r) | r. r \<in> set rs \<and> m l r}"
      by auto
    with False Cons show ?thesis by (auto simp: merge_left_matches)
  qed
qed

lemma map_filter_keyed:
  "List.map_filter key (filter (keyed key) xs) = List.map_filter key xs"
  by (induction xs) (auto simp: List.map_filter_simps keyed_def split: option.splits)

lemma group_keys_keyed:
  "group_keys key (filter (keyed key) xs) = group_keys key xs"
  by (simp add: group_keys_def map_filter_keyed)

lemma group_rows_keyed:
  "group_rows key k (filter (keyed key) xs) = group_rows key k xs"
  by (induction xs) (auto simp: group_rows_def keyed_def)

lemma aggregate_keyed:
  assumes "filter (keyed daily_key) (join_sales os its ps)
         = filter (keyed daily_key) (join_sales os' its' ps')"
  shows "aggregate_daily_sales os its ps = aggregate_daily_sales os' its' ps'"
proof -
  let ?F = "\<lambda>js. filter not_excluded js"
  let ?K = "\<lambda>js. filter (keyed daily_key) js"
  have c: "\<And>js. ?K (?F js) = ?F (?K js)" by (simp add: conj_commute)
  have e: "?K (?F (join_sales os its ps)) = ?K (?F (join_sales os' its' ps'))"
    unfolding c using assms by simp
  have g: "group_keys daily_key (?F (join_sales os its ps))
         = group_keys daily_key (?F (join_sales os' its' ps'))"
    using e group_keys_keyed[of daily_key "?F (join_sales os its ps)"]
      group_keys_keyed[of daily_key "?F (join_sales os' its' ps')"] by simp
  have r: "\<And>k. group_rows daily_key k (?F (join_sales os its ps))
         = group_rows daily_key k (?F (join_sales os' its' ps'))"
    using e group_rows_keyed[of daily_key _ "?F (join_sales os its ps)"]
      group_rows_keyed[of daily_key _ "?F (join_sales os' its' ps')"] by metis
  show ?thesis
    unfolding aggregate_daily_sales_def Let_def g r ..
qed

lemma join_sales_Cons:
  "join_sales os (i # its) ps = join_sales os [i] ps @ join_sales os its ps"
proof -
  have "merge_left (\<lambda>i od. i_order_id i = Some (fst od)) (i # its)
          (map (\<lambda>od. (o_order_id od, o_order_date od, o_status od)) os)
      = merge_left (\<lambda>i od. i_order_id i = Some (fst od)) [i]
          (map (\<lambda>od. (o_order_id od, o_order_date od, o_status od)) os)
      @ merge_left (\<lambda>i od. i_order_id i = Some (fst od)) its
          (map (\<lambda>od. (o_order_id od, o_order_date od, o_status od)) os)"
    using merge_left_append[of _ "[i]" its] by simp
  then show ?thesis by (simp add: join_sales_def merge_left_append)
qed

lemma join_sales_Nil [simp]: "join_sales os [] ps = []"
  by (simp add: join_sales_def)

lemma join_sales_mem:
  assumes "j \<in> set (join_sales os [i] ps)"
  shows "j_item j = i"
    and "\<not> has_order os i \<Longrightarrow> snd (fst j) = None"
    and "\<not> has_product ps i \<Longrightarrow> snd j = None"
proof -
  let ?os = "map (\<lambda>od. (o_order_id od, o_order_date od, o_status od)) os"
  let ?ps = "map (\<lambda>p. (p_product_id p, p_category_id p)) ps"
  let ?inner = "merge_left (\<lambda>i od. i_order_id i = Some (fst od)) [i] ?os"
  from assms have j: "j \<in> set (merge_left (\<lambda>io p. i_product_id (fst io) = Some (fst p)) ?inner ?ps)"
    by (simp add: join_sales_def)
  then have io: "fst j \<in> set ?inner" by (auto simp: set_merge_left)
  then show it: "j_item j = i" by (auto simp: set_merge_left j_item_def)
  {
    assume "\<not> has_order os i"
    then have nm: "\<And>od. od \<in> set os \<Longrightarrow> i_order_id i \<noteq> Some (o_order_id od)"
      by (auto simp: has_order_def list_ex_iff)
    from io have "snd (fst j) = None \<or>
        (\<exists>od\<in>set os. i_order_id i = Some (o_order_id od))"
      by (auto simp: set_merge_left)
    with nm show "snd (fst j) = None" by blast
  }
  {
    assume "\<not> has_product ps i"
    then have nm: "\<And>p. p \<in> set ps \<Longrightarrow> i_product_id i \<noteq> Some (p_product_id p)"
      by (auto simp: has_product_def list_ex_iff)
    from j it have "snd j = None \<or> (\<exists>p\<in>set ps. i_product_id i = Some (p_product_id p))"
      by (auto simp: set_merge_left j_item_def)
    with nm show "snd j = None" by blast
  }
qed

lemma unmatched_item_no_key:
  assumes "\<not> (has_order os i \<and> has_product ps i)"
  shows "filter (keyed daily_key) (join_sales os [i] ps) = []"
proof -
  have "daily_key j = None" if "j \<in> set (join_sales os [i] ps)" for j
    using assms join_sales_mem(2,3)[OF that]
    by (auto simp: daily_key_def j_order_date_def j_category_id_def split: option.splits)
  then show ?thesis by (simp add: filter_empty_conv keyed_def)
qed

lemma join_sales_matched_items:
  "filter (keyed daily_key)
       (join_sales os (filter (\<lambda>i. has_order os i \<and> has_product ps i) its) ps)
   = filter (keyed daily_key) (join_sales os its ps)"
proof (induction its)
  case Nil
  then show ?case by simp
next
  case (Cons i its)
  let ?P = "\<lambda>i. has_order os i \<and> has_product ps i"
  show ?case
  proof (cases "?P i")
    case True
    then have 1: "filter ?P (i # its) = i # filter ?P its" by simp
    show ?thesis
      unfolding 1 join_sales_Cons[of os i its ps] join_sales_Cons[of os i "filter ?P its" ps]
      using Cons by simp
  next
    case False
    then have 1: "filter ?P (i # its) = filter ?P its" by simp
    show ?thesis
      unfolding 1 join_sales_Cons[of os i its ps]
      using Cons unmatched_item_no_key[OF False] by simp
  qed
qed

text \<open>
  C10. An order item whose order_id finds no order, or whose product_id finds no
  product, is dropped from daily_sales without an error: its joined rows have a
  missing order_date or category_id, hence no grouping key, so the aggregation is the
  one of the other items alone and no group contains a row of such an item.
\<close>

theorem unmatched_items_dropped:
  "aggregate_daily_sales os (filter (\<lambda>i. has_order os i \<and> has_product ps i) its) ps
     = aggregate_daily_sales os its ps \<and>
   (\<forall>i\<in>set its. \<not> (has_order os i \<and> has_product ps i) \<longrightarrow>
      (\<forall>r\<in>set (aggregate_daily_sales os its ps).
         \<forall>j\<in>set (sales_group (join_sales os its ps) (ds_key r)). j_item j \<noteq> i))"
proof (intro conjI ballI impI)
  show "aggregate_daily_sales os (filter (\<lambda>i. has_order os i \<and> has_product ps i) its) ps
     = aggregate_daily_sales os its ps"
    by (rule aggregate_keyed) (rule join_sales_matched_items)
next
  fix i r j
  assume i: "i \<in> set its" "\<not> (has_order os i \<and> has_product ps i)"
    and j: "j \<in> set (sales_group (join_sales os its ps) (ds_key r))"
  from j have jj: "j \<in> set (join_sales os its ps)" and dk: "daily_key j = Some (ds_key r)"
    by (simp_all add: sales_group_def)
  have "keyed daily_key j" unfolding keyed_def dk by simp
  with jj have "j \<in> set (filter (keyed daily_key) (join_sales os its ps))" by simp
  then have "j \<in> set (filter (keyed daily_key)
      (join_sales os (filter (\<lambda>i. has_order os i \<and> has_product ps i) its) ps))"
    by (simp only: join_sales_matched_items)
  then have "j \<in> set (join_sales os (filter (\<lambda>i. has_order os i \<and> has_product ps i) its) ps)"
    by simp
  then have "fst (fst j) \<in> set (filter (\<lambda>i. has_order os i \<and> has_product ps i) its)"
    by (auto simp: join_sales_def set_merge_left)
  with i(2) show "j_item j \<noteq> i" by (auto simp: j_item_def)
qed

theorem unmatched_items_dropped_witness:
  "\<not> has_product (t_products sample_tables) (rows sample_items ! 3) \<and>
   aggregate_daily_sales (t_orders sample_tables) (take 3 (rows sample_items))
       (t_products sample_tables)
     = aggregate_daily_sales (t_orders sample_tables) (rows sample_items)
       (t_products sample_tables)"
proof -
  have f: "filter (\<lambda>i. has_order (t_orders sample_tables) i \<and> has_product (t_products sample_tables) i)
             (rows sample_items) = take 3 (rows sample_items)"
    by code_simp
  have n: "\<not> has_product (t_products sample_tables) (rows sample_items ! 3)"
    by code_simp
  from unmatched_items_dropped[of "t_orders sample_tables" "t_products sample_tables" "rows sample_items"]
  show ?thesis unfolding f using n by blast
qed

subsection \<open>Merges with at most one match\<close>

lemma find_filter_Nil: "filter P xs = [] \<Longrightarrow> List.find P xs = None"
  by (induction xs) (auto split: if_splits)

lemma find_filter_Cons: "filter P xs = x # ys \<Longrightarrow> List.find P xs = Some x"
  by (induction xs) (auto split: if_splits)

lemma merge_left_unique:
  assumes "\<And>l. l \<in> set ls \<Longrightarrow> length (filter (m l) rs) \<le> 1"
  shows "merge_left m ls rs = map (\<lambda>l. (l, List.find (m l) rs)) ls"
  using assms
proof (induction ls)
  case Nil
  then show ?case by simp
next
  case (Cons l ls)
  have le: "length (filter (m l) rs) \<le> 1" using Cons.prems by simp
  have tl: "merge_left m ls rs = map (\<lambda>l. (l, List.find (m l) rs)) ls"
    using Cons by simp
  show ?case
  proof (cases "filter (m l) rs")
    case Nil
    then show ?thesis by (simp add: merge_left_Cons tl find_filter_Nil)
  next
    case (Cons x xs)
    with le have "xs = []" by simp
    with Cons show ?thesis by (simp add: merge_left_Cons tl find_filter_Cons)
  qed
qed

lemma distinct_filter_le1:
  "distinct (map f rs) \<Longrightarrow> length (filter (\<lambda>r. a = f r) rs) \<le> 1"
proof (induction rs)
  case Nil
  then show ?case by simp
next
  case (Cons r rs)
  show ?case
  proof (cases "a = f r")
    case True
    with Cons.prems have "filter (\<lambda>r. a = f r) rs = []"
      by (auto simp: filter_empty_conv)
    with True show ?thesis by simp
  next
    case False
    with Cons show ?thesis by simp
  qed
qed

lemma distinct_filter_Some_le1:
  "distinct (map f rs) \<Longrightarrow> length (filter (\<lambda>r. k = Some (f r)) rs) \<le> 1"
proof (cases k)
  case None
  then show ?thesis by simp
next
  case (Some a)
  assume "distinct (map f rs)"
  from distinct_filter_le1[OF this, of a] Some show ?thesis by simp
qed

subsection \<open>Which frames the daily sales read\<close>

lemma aggregate_cong:
  assumes "map (\<lambda>od. (o_order_id od, o_order_date od, o_status od)) os
         = map (\<lambda>od. (o_order_id od, o_order_date od, o_status od)) os'"
    and "map (\<lambda>p. (p_product_id p, p_category_id p)) ps
         = map (\<lambda>p. (p_product_id p, p_category_id p)) ps'"
  shows "aggregate_daily_sales os its ps = aggregate_daily_sales os' its ps'"
  using assms by (simp add: aggregate_daily_sales_def join_sales_def)

lemma products_selection_kept:
  assumes "distinct (map c_category_id (rows cdf))"
    and "transform_product_data pdf cdf = Inr ps1"
  shows "map (\<lambda>p. (p_product_id p, p_category_id p)) ps1
       = map (\<lambda>p. (p_product_id p, p_category_id p)) (rows pdf)"
proof -
  let ?rs = "map (\<lambda>c. (c_category_id c, c_name c)) (rows cdf)"
  have d: "distinct (map fst ?rs)" using assms(1) by (simp add: o_def)
  have u: "merge_left (\<lambda>p c. p_category_id p = Some (fst c)) (rows pdf) ?rs
      = map (\<lambda>l. (l, List.find (\<lambda>c. p_category_id l = Some (fst c)) ?rs)) (rows pdf)"
    by (rule merge_left_unique) (rule distinct_filter_Some_le1[OF d])
  from assms(2) show ?thesis
    by (simp add: transform_product_data_def Let_def u o_def split: if_splits) auto
qed

lemma order_metrics_keys:
  "map om_order_id (order_metrics_of its ps)
     = group_keys (\<lambda>ip. i_order_id (fst ip))
         (merge_left (\<lambda>i p. i_product_id i = Some (fst p)) its
            (map (\<lambda>p. (p_product_id p, p_cost p)) ps))"
  by (simp add: order_metrics_of_def Let_def o_def)

lemma order_metrics_distinct: "distinct (map om_order_id (order_metrics_of its ps))"
  by (simp only: order_metrics_keys distinct_group_keys)

lemma orders_merge_unique:
  "merge_left (\<lambda>od m. o_order_id od = om_order_id m) os (order_metrics_of its ps)
     = map (\<lambda>l. (l, List.find (\<lambda>m. o_order_id l = om_order_id m) (order_metrics_of its ps))) os"
  by (rule merge_left_unique) (rule distinct_filter_le1[OF order_metrics_distinct])

lemma orders_selection_kept:
  "map (\<lambda>od. (o_order_id od, o_order_date od, o_status od)) (calculate_order_revenue os its ps)
   = map (\<lambda>od. (o_order_id od, o_order_date od, o_status od)) os"
  by (simp add: calculate_order_revenue_def orders_merge_unique o_def)

text \<open>
  C8, as amended. Step 4 reads the orders as step 2 left them and the products as step 1
  left them. Step 2 keeps the rows and the selected columns of the orders; step 1 keeps
  those of the products when no two rows of product_categories share a category_id.
  Under that condition daily_sales is the aggregation of the validated Order, OrderItem
  and Product frames.
\<close>

theorem daily_sales_of_raw_frames:
  assumes "distinct (map c_category_id (rows (categories d)))"
    and "transform_phase d = Inr t"
  shows "t_daily_sales t
       = aggregate_daily_sales (rows (orders d)) (rows (order_items d)) (rows (products d))"
proof -
  from assms(2) obtain ps1 where p: "transform_product_data (products d) (categories d) = Inr ps1"
    and t: "t_daily_sales t = aggregate_daily_sales
              (calculate_order_revenue (rows (orders d)) (rows (order_items d)) ps1)
              (rows (order_items d)) ps1"
    by (auto simp: transform_phase_def Let_def split: sum.splits)
  show ?thesis
    unfolding t
    by (rule aggregate_cong) (rule orders_selection_kept, rule products_selection_kept[OF assms(1) p])
qed

text \<open>
  C8 as stated fails: with two rows for category 1 in product_categories.csv, step 1
  repeats product 10, and the daily sales of the run count its items twice (6 units,
  revenue 100) while the aggregation of the validated frames gives 3 units, revenue 50.
\<close>

theorem daily_sales_reads_enriched_frames:
  "(case extract_phase sample_dup_category of
      Inl e \<Rightarrow> None
    | Inr d \<Rightarrow>
        (case transform_phase d of
           Inl e \<Rightarrow> None
         | Inr t \<Rightarrow>
             Some (map (\<lambda>r. (ds_key r, ds_units_sold r, ds_revenue r)) (t_daily_sales t),
                   map (\<lambda>r. (ds_key r, ds_units_sold r, ds_revenue r))
                     (aggregate_daily_sales (rows (orders d)) (rows (order_items d))
                        (rows (products d))))))
   = Some ([((19723, 10, 1), 6, 100)], [((19723, 10, 1), 3, 50)])"
  by code_simp

theorem daily_sales_of_raw_frames_witness:
  "distinct (map c_category_id (rows (categories sample_dfs))) \<and>
   t_daily_sales sample_tables
     = aggregate_daily_sales (rows (orders sample_dfs)) (rows (order_items sample_dfs))
         (rows (products sample_dfs))"
proof -
  have d: "distinct (map c_category_id (rows (categories sample_dfs)))"
    by (simp add: sample_dfs_def)
  from daily_sales_of_raw_frames[OF d sample_transform] d show ?thesis by simp
qed

subsection \<open>Order revenue\<close>

lemma find_map_sel: "List.find P (map f xs) = map_option f (List.find (\<lambda>x. P (f x)) xs)"
  by (induction xs) auto

lemma find_keyed_map:
  assumes "\<And>k. f (g k) = k"
  shows "List.find (\<lambda>m. a = f m) (map g ks) = (if a \<in> set ks then Some (g a) else None)"
  using assms by (induction ks) auto

lemma set_fst_merge_left: "fst ` set (merge_left m ls rs) = set ls"
proof -
  have "\<And>l. l \<in> set ls \<Longrightarrow> l \<in> fst ` set (merge_left m ls rs)"
  proof -
    fix l assume l: "l \<in> set ls"
    show "l \<in> fst ` set (merge_left m ls rs)"
    proof (cases "filter (m l) rs")
      case Nil
      with l have "(l, None) \<in> set (merge_left m ls rs)" by (simp add: set_merge_left)
      then show ?thesis by force
    next
      case (Cons x xs)
      then have "x \<in> set (filter (m l) rs)" by simp
      with l have "(l, Some x) \<in> set (merge_left m ls rs)" by (simp add: set_merge_left)
      then show ?thesis by force
    qed
  qed
  moreover have "\<And>l. l \<in> fst ` set (merge_left m ls rs) \<Longrightarrow> l \<in> set ls"
    by (auto simp: set_merge_left)
  ultimately show ?thesis by blast
qed

lemma order_has_metrics:
  "(k \<in> set (map om_order_id (order_metrics_of its ps))) = (items_of its k \<noteq> [])"
proof -
  let ?iwp = "merge_left (\<lambda>i p. i_product_id i = Some (fst p)) its
                (map (\<lambda>p. (p_product_id p, p_cost p)) ps)"
  have "(k \<in> set (map om_order_id (order_metrics_of its ps)))
      = (\<exists>i\<in>fst ` set ?iwp. i_order_id i = Some k)"
    unfolding order_metrics_keys set_group_keys by auto
  also have "\<dots> = (\<exists>i\<in>set its. i_order_id i = Some k)"
    unfolding set_fst_merge_left ..
  also have "\<dots> = (items_of its k \<noteq> [])"
    by (auto simp: items_of_def filter_empty_conv)
  finally show ?thesis .
qed

lemma order_metrics_find:
  "List.find (\<lambda>m. k = om_order_id m) (order_metrics_of its ps)
     = (if items_of its k \<noteq> [] then
          Some (let g = group_rows (\<lambda>ip. i_order_id (fst ip)) k
                          (merge_left (\<lambda>i p. i_product_id i = Some (fst p)) its
                             (map (\<lambda>p. (p_product_id p, p_cost p)) ps))
                in \<lparr>om_order_id = k,
                    om_total = col_sum (map (\<lambda>ip. i_total (fst ip)) g),
                    om_profit = col_sum (map item_profit g),
                    om_quantity = col_sum (map (\<lambda>ip. i_quantity (fst ip)) g)\<rparr>)
        else None)"
proof -
  have "(k \<in> set (group_keys (\<lambda>ip. i_order_id (fst ip))
          (merge_left (\<lambda>i p. i_product_id i = Some (fst p)) its
             (map (\<lambda>p. (p_product_id p, p_cost p)) ps)))) = (items_of its k \<noteq> [])"
    using order_has_metrics[of k its ps] unfolding order_metrics_keys by simp
  then show ?thesis
    unfolding order_metrics_of_def Let_def
    by (subst find_keyed_map) simp_all
qed

lemma items_group_unique:
  assumes "distinct (map p_product_id ps)"
  shows "group_rows (\<lambda>ip. i_order_id (fst ip)) k
           (merge_left (\<lambda>i p. i_product_id i = Some (fst p)) its
              (map (\<lambda>p. (p_product_id p, p_cost p)) ps))
       = map (\<lambda>i. (i, List.find (\<lambda>p. i_product_id i = Some (fst p))
                        (map (\<lambda>p. (p_product_id p, p_cost p)) ps)))
           (items_of its k)"
proof -
  let ?rs = "map (\<lambda>p. (p_product_id p, p_cost p)) ps"
  have d: "distinct (map fst ?rs)" using assms by (simp add: o_def)
  have u: "merge_left (\<lambda>i p. i_product_id i = Some (fst p)) its ?rs
      = map (\<lambda>i. (i, List.find (\<lambda>p. i_product_id i = Some (fst p)) ?rs)) its"
    by (rule merge_left_unique) (rule distinct_filter_Some_le1[OF d])
  show ?thesis
    unfolding u by (simp add: group_rows_def items_of_def filter_map o_def)
qed

lemma item_profit_of:
  "item_profit (i, List.find (\<lambda>p. i_product_id i = Some (fst p))
                     (map (\<lambda>p. (p_product_id p, p_cost p)) ps))
   = profit_of ps i"
  by (cases "List.find (\<lambda>p. i_product_id i = Some (p_product_id p)) ps")
     (simp_all add: item_profit_def profit_of_def cost_of_def find_map_sel)

lemma revenue_row:
  assumes "e \<in> set (calculate_order_revenue os its ps)"
  obtains od where "od \<in> set os" "o_order_id e = o_order_id od"
    "o_total e = map_option om_total (List.find (\<lambda>m. o_order_id od = om_order_id m) (order_metrics_of its ps))"
    "o_profit e = map_option om_profit (List.find (\<lambda>m. o_order_id od = om_order_id m) (order_metrics_of its ps))"
    "o_quantity e = map_option om_quantity (List.find (\<lambda>m. o_order_id od = om_order_id m) (order_metrics_of its ps))"
  using assms by (auto simp: calculate_order_revenue_def orders_merge_unique)

text \<open>
  C2, as amended. After the order-revenue step every order keeps exactly one row. An
  order with no associated item has total, profit and quantity missing. An order with
  at least one associated item has, provided no two rows of the product frame the step
  reads share a product_id, total equal to the sum of the totals of its items, profit
  equal to the sum of the items' \<open>total - cost * quantity\<close> and quantity equal to the
  sum of their quantities (missing cells skipped).
\<close>

theorem order_totals_of_items:
  "map (\<lambda>e. (o_order_id e, o_customer_id e, o_order_date e, o_status e, o_total_amount e))
       (calculate_order_revenue os its ps)
     = map (\<lambda>od. (o_order_id od, o_customer_id od, o_order_date od, o_status od, o_total_amount od)) os \<and>
   (\<forall>e\<in>set (calculate_order_revenue os its ps).
      (items_of its (o_order_id e) = [] \<longrightarrow>
         o_total e = None \<and> o_profit e = None \<and> o_quantity e = None) \<and>
      (items_of its (o_order_id e) \<noteq> [] \<and> distinct (map p_product_id ps) \<longrightarrow>
         o_total e = Some (col_sum (map i_total (items_of its (o_order_id e)))) \<and>
         o_profit e = Some (col_sum (map (profit_of ps) (items_of its (o_order_id e)))) \<and>
         o_quantity e = Some (col_sum (map i_quantity (items_of its (o_order_id e))))))"
proof (intro conjI ballI impI)
  show "map (\<lambda>e. (o_order_id e, o_customer_id e, o_order_date e, o_status e, o_total_amount e))
       (calculate_order_revenue os its ps)
     = map (\<lambda>od. (o_order_id od, o_customer_id od, o_order_date od, o_status od, o_total_amount od)) os"
    by (simp add: calculate_order_revenue_def orders_merge_unique o_def)
next
  fix e assume e: "e \<in> set (calculate_order_revenue os its ps)"
    and n: "items_of its (o_order_id e) = []"
  from e obtain od where "od \<in> set os" and od: "o_order_id e = o_order_id od"
    "o_total e = map_option om_total (List.find (\<lambda>m. o_order_id od = om_order_id m) (order_metrics_of its ps))"
    "o_profit e = map_option om_profit (List.find (\<lambda>m. o_order_id od = om_order_id m) (order_metrics_of its ps))"
    "o_quantity e = map_option om_quantity (List.find (\<lambda>m. o_order_id od = om_order_id m) (order_metrics_of its ps))"
    by (rule revenue_row)
  from n od(1) have f: "List.find (\<lambda>m. o_order_id od = om_order_id m) (order_metrics_of its ps) = None"
    by (simp add: order_metrics_find)
  show "o_total e = None" "o_profit e = None" "o_quantity e = None"
    by (simp_all add: od f)
next
  fix e assume e: "e \<in> set (calculate_order_revenue os its ps)"
    and n: "items_of its (o_order_id e) \<noteq> [] \<and> distinct (map p_product_id ps)"
  from e obtain od where "od \<in> set os" and od: "o_order_id e = o_order_id od"
    "o_total e = map_option om_total (List.find (\<lambda>m. o_order_id od = om_order_id m) (order_metrics_of its ps))"
    "o_profit e = map_option om_profit (List.find (\<lambda>m. o_order_id od = om_order_id m) (order_metrics_of its ps))"
    "o_quantity e = map_option om_quantity (List.find (\<lambda>m. o_order_id od = om_order_id m) (order_metrics_of its ps))"
    by (rule revenue_row)
  from n have d: "distinct (map p_product_id ps)" and ne: "items_of its (o_order_id od) \<noteq> []"
    by (simp_all add: od(1))
  note g = items_group_unique[OF d, of "o_order_id od" its]
  show "o_total e = Some (col_sum (map i_total (items_of its (o_order_id e))))"
    by (simp add: od order_metrics_find ne g o_def)
  show "o_quantity e = Some (col_sum (map i_quantity (items_of its (o_order_id e))))"
    by (simp add: od order_metrics_find ne g o_def)
  show "o_profit e = Some (col_sum (map (profit_of ps) (items_of its (o_order_id e))))"
    by (simp add: od order_metrics_find ne g o_def item_profit_of)
qed

text \<open>
  C2 as stated fails: with two rows for product 10 in products.csv the merge of the
  items with the products repeats the two items of product 10, and order 1000 gets the
  total 104 while the totals of its three items add up to 54.
\<close>

theorem order_total_counts_repeated_products:
  "(case extract_phase sample_dup_product of
      Inl e \<Rightarrow> None
    | Inr d \<Rightarrow>
        (case transform_phase d of
           Inl e \<Rightarrow> None
         | Inr t \<Rightarrow>
             Some (map (\<lambda>e. (o_order_id e, o_total e,
                              col_sum (map i_total (items_of (rows (order_items d)) (o_order_id e)))))
                     (t_orders t))))
   = Some [(1000, Some 104, 54), (1001, Some 10, 10), (1002, None, 0)]"
  by code_simp

theorem order_totals_of_items_witness:
  "hd (t_orders sample_tables)
     \<in> set (calculate_order_revenue (rows (orders sample_dfs)) (rows sample_items)
              (t_products sample_tables)) \<and>
   items_of (rows sample_items) 1000 \<noteq> [] \<and>
   distinct (map p_product_id (t_products sample_tables)) \<and>
   col_sum (map i_total (items_of (rows sample_items) 1000)) = 54 \<and>
   col_sum (map (profit_of (t_products sample_tables)) (items_of (rows sample_items) 1000)) = 14 \<and>
   col_sum (map i_quantity (items_of (rows sample_items) 1000)) = 7 \<and>
   items_of (rows sample_items) 1002 = [] \<and>
   o_total (t_orders sample_tables ! 2) = None"
proof -
  let ?out = "calculate_order_revenue (rows (orders sample_dfs)) (rows sample_items)
              (t_products sample_tables)"
  let ?e = "hd (t_orders sample_tables)"
  have out: "?out = t_orders sample_tables" by code_simp
  have m: "?e \<in> set ?out" unfolding out by (simp add: sample_tables_def)
  have m2: "t_orders sample_tables ! 2 \<in> set ?out" unfolding out by (simp add: sample_tables_def)
  have k: "o_order_id ?e = 1000" "o_total ?e = Some 54" "o_profit ?e = Some 14"
    "o_quantity ?e = Some 7" "o_order_id (t_orders sample_tables ! 2) = 1002"
    by (simp_all add: sample_tables_def)
  have ne: "items_of (rows sample_items) 1000 \<noteq> []" by code_simp
  have e2: "items_of (rows sample_items) 1002 = []" by code_simp
  have d: "distinct (map p_product_id (t_products sample_tables))"
    by (simp add: sample_tables_def)
  from order_totals_of_items[of "rows (orders sample_dfs)" "rows sample_items" "t_products sample_tables"]
  have a: "\<forall>e\<in>set ?out.
      (items_of (rows sample_items) (o_order_id e) = [] \<longrightarrow>
         o_total e = None \<and> o_profit e = None \<and> o_quantity e = None) \<and>
      (items_of (rows sample_items) (o_order_id e) \<noteq> [] \<and> distinct (map p_product_id (t_products sample_tables)) \<longrightarrow>
         o_total e = Some (col_sum (map i_total (items_of (rows sample_items) (o_order_id e)))) \<and>
         o_profit e = Some (col_sum (map (profit_of (t_products sample_tables)) (items_of (rows sample_items) (o_order_id e)))) \<and>
         o_quantity e = Some (col_sum (map i_quantity (items_of (rows sample_items) (o_order_id e)))))"
    by blast
  from a[rule_format, OF m] ne d k
  have "Some 54 = Some (col_sum (map i_total (items_of (rows sample_items) 1000)))"
    "Some 14 = Some (col_sum (map (profit_of (t_products sample_tables)) (items_of (rows sample_items) 1000)))"
    "Some 7 = Some (col_sum (map i_quantity (items_of (rows sample_items) 1000)))"
    by simp_all
  moreover from a[rule_format, OF m2] e2 k have "o_total (t_orders sample_tables ! 2) = None"
    by simp
  ultimately show ?thesis using m ne d e2 by simp
qed

subsection \<open>Customer enrichment\<close>

lemma customer_group:
  "group_rows o_customer_id k (filter qualifying os) = qualifying_orders os k"
  by (simp add: group_rows_def qualifying_orders_def qualifying_def conj_commute)

lemma customer_metrics_keys:
  "map cm_customer_id (customer_metrics_of os) = group_keys o_customer_id (filter qualifying os)"
  by (simp add: customer_metrics_of_def Let_def o_def)

lemma customer_metrics_distinct: "distinct (map cm_customer_id (customer_metrics_of os))"
  by (simp only: customer_metrics_keys distinct_group_keys)

lemma customer_has_metrics:
  "(k \<in> set (group_keys o_customer_id (filter qualifying os))) = (qualifying_orders os k \<noteq> [])"
  by (auto simp: set_group_keys qualifying_orders_def qualifying_def filter_empty_conv)

lemma customer_metrics_find:
  "List.find (\<lambda>m. k = cm_customer_id m) (customer_metrics_of os)
     = (if qualifying_orders os k \<noteq> [] then
          Some \<lparr>cm_customer_id = k, cm_total_orders = length (qualifying_orders os k),
                cm_lifetime_value = col_sum (map o_total (qualifying_orders os k)),
                cm_first_order_date = col_min (map o_order_date (qualifying_orders os k)),
                cm_last_order_date = col_max (map o_order_date (qualifying_orders os k)),
                cm_average_order_value =
                  fdiv (Fin (col_sum (map o_total (qualifying_orders os k))))
                       (Fin (of_nat (length (qualifying_orders os k)))),
                cm_days_between_orders =
                  fdiv (days_between (col_min (map o_order_date (qualifying_orders os k)))
                                     (col_max (map o_order_date (qualifying_orders os k))))
                       (Fin (of_nat (length (qualifying_orders os k))))\<rparr>
        else None)"
  unfolding customer_metrics_of_def Let_def customer_group
  by (subst find_keyed_map) (simp_all add: customer_has_metrics)

lemma customers_merge_unique:
  "merge_left (\<lambda>c m. cu_customer_id c = cm_customer_id m) cs (customer_metrics_of os)
     = map (\<lambda>c. (c, List.find (\<lambda>m. cu_customer_id c = cm_customer_id m) (customer_metrics_of os))) cs"
  by (rule merge_left_unique) (rule distinct_filter_le1[OF customer_metrics_distinct])

lemma enriched_customer:
  assumes "e \<in> set (enrich_customer_data cs os)"
  shows "qualifying_orders os (cu_customer_id e) = [] \<Longrightarrow>
           cu_total_orders e = None \<and> cu_lifetime_value e = None \<and>
           cu_first_order_date e = None \<and> cu_last_order_date e = None \<and>
           cu_average_order_value e = NaN \<and> cu_days_between_orders e = NaN"
    and "qualifying_orders os (cu_customer_id e) \<noteq> [] \<Longrightarrow>
           cu_total_orders e = Some (length (qualifying_orders os (cu_customer_id e))) \<and>
           cu_lifetime_value e = Some (col_sum (map o_total (qualifying_orders os (cu_customer_id e)))) \<and>
           cu_first_order_date e = col_min (map o_order_date (qualifying_orders os (cu_customer_id e))) \<and>
           cu_last_order_date e = col_max (map o_order_date (qualifying_orders os (cu_customer_id e))) \<and>
           cu_average_order_value e =
             fdiv (Fin (col_sum (map o_total (qualifying_orders os (cu_customer_id e)))))
                  (Fin (of_nat (length (qualifying_orders os (cu_customer_id e))))) \<and>
           cu_days_between_orders e =
             fdiv (days_between (col_min (map o_order_date (qualifying_orders os (cu_customer_id e))))
                                (col_max (map o_order_date (qualifying_orders os (cu_customer_id e)))))
                  (Fin (of_nat (length (qualifying_orders os (cu_customer_id e)))))"
proof -
  from assms obtain c where c: "c \<in> set cs"
    and e: "e = \<lparr>cu_customer_id = cu_customer_id c, cu_email = cu_email c,
             cu_total_orders = map_option cm_total_orders (List.find (\<lambda>m. cu_customer_id c = cm_customer_id m) (customer_metrics_of os)),
             cu_lifetime_value = map_option cm_lifetime_value (List.find (\<lambda>m. cu_customer_id c = cm_customer_id m) (customer_metrics_of os)),
             cu_first_order_date = Option.bind (List.find (\<lambda>m. cu_customer_id c = cm_customer_id m) (customer_metrics_of os)) cm_first_order_date,
             cu_last_order_date = Option.bind (List.find (\<lambda>m. cu_customer_id c = cm_customer_id m) (customer_metrics_of os)) cm_last_order_date,
             cu_average_order_value =
               (case List.find (\<lambda>m. cu_customer_id c = cm_customer_id m) (customer_metrics_of os) of None \<Rightarrow> NaN | Some x \<Rightarrow> cm_average_order_value x),
             cu_days_between_orders =
               (case List.find (\<lambda>m. cu_customer_id c = cm_customer_id m) (customer_metrics_of os) of None \<Rightarrow> NaN | Some x \<Rightarrow> cm_days_between_orders x)\<rparr>"
    by (auto simp: enrich_customer_data_def customers_merge_unique)
  have k: "cu_customer_id e = cu_customer_id c" by (simp add: e)
  show "qualifying_orders os (cu_customer_id e) = [] \<Longrightarrow>
           cu_total_orders e = None \<and> cu_lifetime_value e = None \<and>
           cu_first_order_date e = None \<and> cu_last_order_date e = None \<and>
           cu_average_order_value e = NaN \<and> cu_days_between_orders e = NaN"
    unfolding k by (simp add: e customer_metrics_find)
  show "qualifying_orders os (cu_customer_id e) \<noteq> [] \<Longrightarrow>
           cu_total_orders e = Some (length (qualifying_orders os (cu_customer_id e))) \<and>
           cu_lifetime_value e = Some (col_sum (map o_total (qualifying_orders os (cu_customer_id e)))) \<and>
           cu_first_order_date e = col_min (map o_order_date (qualifying_orders os (cu_customer_id e))) \<and>
           cu_last_order_date e = col_max (map o_order_date (qualifying_orders os (cu_customer_id e))) \<and>
           cu_average_order_value e =
             fdiv (Fin (col_sum (map o_total (qualifying_orders os (cu_customer_id e)))))
                  (Fin (of_nat (length (qualifying_orders os (cu_customer_id e))))) \<and>
           cu_days_between_orders e =
             fdiv (days_between (col_min (map o_order_date (qualifying_orders os (cu_customer_id e))))
                                (col_max (map o_order_date (qualifying_orders os (cu_customer_id e)))))
                  (Fin (of_nat (length (qualifying_orders os (cu_customer_id e)))))"
    unfolding k by (simp add: e customer_metrics_find)
qed

lemma fdiv_count: "0 < n \<Longrightarrow> fdiv (Fin a) (Fin (of_nat n)) = Fin (a / of_nat n)"
  by simp

lemma days_between_cases:
  "days_between f l =
     (case (f, l) of (Some a, Some b) \<Rightarrow> Fin (of_int ((b - a) div 86400)) | _ \<Rightarrow> NaN)"
  by (simp add: days_between_def of_cell_def cell2_def split: option.splits)

lemma single_dated:
  "col_min [Some t] = Some t" "col_max [Some t] = Some t"
  by (simp_all add: col_min_def col_max_def present_def List.map_filter_simps)

text \<open>
  C7, as amended. After customer enrichment every customer keeps exactly one row. For
  a customer with at least one order of status Delivered, In Transit or Shipped,
  total_orders is the number of those orders, lifetime_value the sum of their totals,
  first and last order date the minimum and maximum of their order dates,
  average_order_value is lifetime_value / total_orders, and days_between_orders is
  (last - first in whole days) / total_orders, missing (NaN) when those orders carry no
  order date; a customer whose single such order has an order date gets 0. For a
  customer with no such order, total_orders, lifetime_value, average_order_value and
  days_between_orders are all missing.
\<close>

theorem customer_metrics_of_qualifying_orders:
  "map (\<lambda>e. (cu_customer_id e, cu_email e)) (enrich_customer_data cs os)
     = map (\<lambda>c. (cu_customer_id c, cu_email c)) cs \<and>
   (\<forall>e\<in>set (enrich_customer_data cs os).
      (qualifying_orders os (cu_customer_id e) = [] \<longrightarrow>
         cu_total_orders e = None \<and> cu_lifetime_value e = None \<and>
         cu_average_order_value e = NaN \<and> cu_days_between_orders e = NaN) \<and>
      (qualifying_orders os (cu_customer_id e) \<noteq> [] \<longrightarrow>
         cu_total_orders e = Some (length (qualifying_orders os (cu_customer_id e))) \<and>
         cu_lifetime_value e = Some (col_sum (map o_total (qualifying_orders os (cu_customer_id e)))) \<and>
         cu_first_order_date e = col_min (map o_order_date (qualifying_orders os (cu_customer_id e))) \<and>
         cu_last_order_date e = col_max (map o_order_date (qualifying_orders os (cu_customer_id e))) \<and>
         cu_average_order_value e = Fin (col_sum (map o_total (qualifying_orders os (cu_customer_id e))) / of_nat (length (qualifying_orders os (cu_customer_id e)))) \<and>
         cu_days_between_orders e =
           (case (cu_first_order_date e, cu_last_order_date e) of
              (Some f, Some l) \<Rightarrow> Fin (of_int ((l - f) div 86400) / of_nat (length (qualifying_orders os (cu_customer_id e))))
            | _ \<Rightarrow> NaN)) \<and>
      (\<forall>od t. qualifying_orders os (cu_customer_id e) = [od] \<and> o_order_date od = Some t \<longrightarrow> cu_days_between_orders e = Fin 0))"
proof (intro conjI ballI impI allI)
  show "map (\<lambda>e. (cu_customer_id e, cu_email e)) (enrich_customer_data cs os)
     = map (\<lambda>c. (cu_customer_id c, cu_email c)) cs"
    by (simp add: enrich_customer_data_def customers_merge_unique o_def)
next
  fix e assume e: "e \<in> set (enrich_customer_data cs os)" and n: "qualifying_orders os (cu_customer_id e) = []"
  from enriched_customer(1)[OF e n]
  show "cu_total_orders e = None" "cu_lifetime_value e = None"
    "cu_average_order_value e = NaN" "cu_days_between_orders e = NaN"
    by simp_all
next
  fix e assume e: "e \<in> set (enrich_customer_data cs os)" and n: "qualifying_orders os (cu_customer_id e) \<noteq> []"
  note f = enriched_customer(2)[OF e n]
  from n have p: "0 < length (qualifying_orders os (cu_customer_id e))" by simp
  from f show "cu_total_orders e = Some (length (qualifying_orders os (cu_customer_id e)))"
    "cu_lifetime_value e = Some (col_sum (map o_total (qualifying_orders os (cu_customer_id e))))"
    "cu_first_order_date e = col_min (map o_order_date (qualifying_orders os (cu_customer_id e)))"
    "cu_last_order_date e = col_max (map o_order_date (qualifying_orders os (cu_customer_id e)))"
    by simp_all
  from f p show "cu_average_order_value e = Fin (col_sum (map o_total (qualifying_orders os (cu_customer_id e))) / of_nat (length (qualifying_orders os (cu_customer_id e))))"
    by (simp only: fdiv_count)
  from f p show "cu_days_between_orders e =
           (case (cu_first_order_date e, cu_last_order_date e) of
              (Some f, Some l) \<Rightarrow> Fin (of_int ((l - f) div 86400) / of_nat (length (qualifying_orders os (cu_customer_id e))))
            | _ \<Rightarrow> NaN)"
    by (simp add: days_between_cases split: option.splits)
next
  fix e od t
  assume e: "e \<in> set (enrich_customer_data cs os)"
    and q: "qualifying_orders os (cu_customer_id e) = [od] \<and> o_order_date od = Some t"
  then have n: "qualifying_orders os (cu_customer_id e) \<noteq> []" by simp
  from enriched_customer(2)[OF e n] q
  show "cu_days_between_orders e = Fin 0"
    by (simp add: single_dated days_between_cases)
qed

text \<open>
  C7 as stated fails for a single-order customer whose order has no order date: after
  steps 1 to 3 on the batch with the undated order of customer 100, the minimum and
  maximum are NaT and days_between_orders is NaN, not 0.
\<close>

theorem undated_single_order_not_zero:
  "(case extract_phase sample_undated_order of
      Inl e \<Rightarrow> None
    | Inr d \<Rightarrow>
        (case transform_product_data (products d) (categories d) of
           Inl e \<Rightarrow> None
         | Inr products1 \<Rightarrow>
             Some (map (\<lambda>e. (cu_customer_id e, cu_total_orders e, cu_first_order_date e,
                              cu_last_order_date e, cu_days_between_orders e))
                     (enrich_customer_data (rows (customers d))
                        (calculate_order_revenue (rows (orders d)) (rows (order_items d))
                           products1)))))
   = Some [(100, Some 1, None, None, NaN), (101, Some 1, Some 1704153600, Some 1704153600, Fin 0)]"
  by code_simp

theorem customer_metrics_of_qualifying_orders_witness:
  "hd (t_customers sample_tables)
     \<in> set (enrich_customer_data (rows (customers sample_dfs)) (t_orders sample_tables)) \<and>
   length (qualifying_orders (t_orders sample_tables) 100) = 2 \<and>
   col_sum (map o_total (qualifying_orders (t_orders sample_tables) 100)) = 54 \<and>
   cu_average_order_value (hd (t_customers sample_tables)) = Fin (54 / 2) \<and>
   cu_days_between_orders (hd (t_customers sample_tables)) = Fin (2 / 2) \<and>
   qualifying_orders (t_orders sample_tables) 101 = [] \<and>
   cu_lifetime_value (t_customers sample_tables ! 1) = None \<and>
   qualifying_orders [hd (t_orders sample_tables)] 100 = [hd (t_orders sample_tables)] \<and>
   map cu_days_between_orders
     (enrich_customer_data (rows (customers sample_dfs)) [hd (t_orders sample_tables)])
     = [Fin 0, NaN]"
proof -
  let ?cs = "rows (customers sample_dfs)"
  let ?os = "t_orders sample_tables"
  let ?out = "enrich_customer_data ?cs ?os"
  let ?e = "hd (t_customers sample_tables)"
  let ?e2 = "t_customers sample_tables ! 1"
  have out: "?out = t_customers sample_tables" by code_simp
  have m: "?e \<in> set ?out" "?e2 \<in> set ?out" unfolding out by (simp_all add: sample_tables_def)
  have k: "cu_customer_id ?e = 100" "cu_customer_id ?e2 = 101"
    "cu_total_orders ?e = Some 2" "cu_lifetime_value ?e = Some 54"
    "cu_first_order_date ?e = Some 1704067200" "cu_last_order_date ?e = Some 1704240000"
    by (simp_all add: sample_tables_def)
  have q: "qualifying_orders ?os 100 \<noteq> []" "qualifying_orders ?os 101 = []" by code_simp+
  note t = customer_metrics_of_qualifying_orders[of ?cs ?os, THEN conjunct2, rule_format]
  from t[OF m(1)] q(1) k
  have a: "Some 2 = Some (length (qualifying_orders ?os 100))"
    "Some 54 = Some (col_sum (map o_total (qualifying_orders ?os 100)))"
    "cu_average_order_value ?e = Fin (col_sum (map o_total (qualifying_orders ?os 100))
        / of_nat (length (qualifying_orders ?os 100)))"
    "cu_days_between_orders ?e = Fin (of_int ((1704240000 - 1704067200) div 86400)
        / of_nat (length (qualifying_orders ?os 100)))"
    by simp_all
  from t[OF m(2)] q(2) k have b: "cu_lifetime_value ?e2 = None" by simp
  let ?o1 = "[hd (t_orders sample_tables)]"
  let ?out1 = "enrich_customer_data ?cs ?o1"
  have q1: "qualifying_orders ?o1 100 = ?o1" "o_order_date (hd (t_orders sample_tables)) = Some 1704067200"
    by code_simp+
  have out1: "map cu_customer_id ?out1 = [100, 101]" "map cu_days_between_orders ?out1 = [cu_days_between_orders (hd ?out1), NaN]"
    "hd ?out1 \<in> set ?out1"
    by code_simp+
  have h1: "cu_customer_id (hd ?out1) = 100" by code_simp
  from customer_metrics_of_qualifying_orders[of ?cs ?o1] out1(3)
  have "\<forall>od t. qualifying_orders ?o1 (cu_customer_id (hd ?out1)) = [od] \<and> o_order_date od = Some t
          \<longrightarrow> cu_days_between_orders (hd ?out1) = Fin 0"
    by blast
  then have c: "cu_days_between_orders (hd ?out1) = Fin 0"
    unfolding h1 using q1 by blast
  from a b c m(1) q(2) q1(1) out1(2) show ?thesis by simp
qed

subsection \<open>The time dimension\<close>


lemma day_of_step: "(s + 86400 * int k) div 86400 = s div 86400 + int k"
  by simp





lemma col_min_max_None: "(col_min xs = None) = (present xs = [])" "(col_max xs = None) = (present xs = [])"
  by (simp_all add: col_min_def col_max_def split: list.splits)





subsection \<open>Product enrichment\<close>








subsection \<open>Malformed emails\<close>

lemma invert_Inr:
  "invert (str_test p col) = Inr bad \<Longrightarrow>
     None \<notin> set col \<and> bad = map (\<lambda>c. case c of None \<Rightarrow> True | Some s \<Rightarrow> \<not> p s) col"
proof (induction col arbitrary: bad)
  case Nil
  then show ?case by (simp add: invert_def str_test_def present_def List.map_filter_simps)
next
  case (Cons c col)
  from Cons.prems have n: "None \<notin> set (str_test p (c # col))"
    by (auto simp: invert_def split: if_splits)
  then obtain s where c: "c = Some s" by (cases c) (auto simp: str_test_def)
  from n have n': "None \<notin> set (str_test p col)" by (simp add: str_test_def)
  then have i: "invert (str_test p col) = Inr (map Not (present (str_test p col)))"
    by (simp add: invert_def)
  from Cons.IH[OF i] Cons.prems n c show ?case
    by (auto simp: invert_def str_test_def present_def List.map_filter_simps)
qed

lemma zip_map_self: "zip xs (map f xs) = map (\<lambda>x. (x, f x)) xs"
  by (induction xs) simp_all

text \<open>Validation keeps every customer row and sets exactly the emails that do not
  match the pattern to missing.\<close>

lemma customers_validation:
  assumes "read_and_validate_customers (Some df) = Inr df'"
  shows "length (rows df') = length (rows df)"
    and "map cu_customer_id (rows df') = map cu_customer_id (rows df)"
    and "map cu_email (rows df')
       = map (\<lambda>r. case cu_email r of None \<Rightarrow> None
                   | Some s \<Rightarrow> if email_match s then Some s else None) (rows df)"
proof -
  from assms obtain bad where b: "invert (str_test email_match (map cu_email (rows df))) = Inr bad"
    and d: "df' = df\<lparr>rows := map (\<lambda>(r, bad). if bad then r\<lparr>cu_email := None\<rparr> else r)
                                          (zip (rows df) bad)\<rparr>"
    by (auto simp: read_and_validate_customers_def split: if_splits sum.splits)
  from invert_Inr[OF b]
  have bad: "bad = map (\<lambda>r. case cu_email r of None \<Rightarrow> True | Some s \<Rightarrow> \<not> email_match s) (rows df)"
    by (simp add: o_def)
  have z: "zip (rows df) bad
      = map (\<lambda>r. (r, case cu_email r of None \<Rightarrow> True | Some s \<Rightarrow> \<not> email_match s)) (rows df)"
    unfolding bad by (rule zip_map_self)
  show "length (rows df') = length (rows df)" by (simp add: d z)
  show "map cu_customer_id (rows df') = map cu_customer_id (rows df)"
    by (simp add: d z o_def)
  show "map cu_email (rows df')
       = map (\<lambda>r. case cu_email r of None \<Rightarrow> None
                   | Some s \<Rightarrow> if email_match s then Some s else None) (rows df)"
    by (simp add: d z o_def) (auto split: option.splits)
qed

text \<open>The quality check of a customers frame with a missing email raises.\<close>

lemma quality_check_null_email:
  assumes "None \<in> set emails" "q_email df = Some emails"
  shows "check_data_quality now ''customers'' df = Inl (TypeError ''bad operand type for unary ~'')"
  using assms by (auto simp: check_data_quality_def Let_def invert_def str_test_def)

text \<open>
  C6. A customer row whose email does not match the pattern keeps its row and gets a
  missing email, as the claim says; but the quality check then counts no invalid email
  for it: it evaluates \<open>~df['email'].str.contains('@')\<close> on the validated frame, where
  that email is now missing, and raises TypeError. On the batch with the malformed
  email of customer 101 the run loads its seven tables and \<open>process_data\<close> ends with
  the TypeError instead of metrics with invalid_emails = 1.
\<close>

theorem invalid_email_breaks_quality_check:
  "read_and_validate_customers (customers_csv sample_bad_email)
     = Inr \<lparr>columns = [''customer_id'', ''email'', ''first_name'', ''last_name''],
            rows = [\<lparr>cu_customer_id = 100, cu_email = Some ''ann@shop.example''\<rparr>,
                    \<lparr>cu_customer_id = 101, cu_email = None\<rparr>]\<rparr> \<and>
   fst (process_data 2000000000 (\<lambda>n. True) sample_bad_email new_engine)
     = Inl (TypeError ''bad operand type for unary ~'') \<and>
   map fst (written (snd (process_data 2000000000 (\<lambda>n. True) sample_bad_email new_engine)))
     = [''dim_time'', ''product_categories'', ''products'', ''customers'', ''orders'',
        ''order_items'', ''daily_sales_aggregation'']"
  by code_simp

end
